theory Spec2Isabelle
  imports Main "HOL-Library.Word"
begin

section \<open>The WebGPU engine of GWebGPUEngine (packages/core/src/WebGPUEngine.ts)\<close>

text \<open>
  The class \<^verbatim>\<open>WebGPUEngine\<close> is embedded as a record of its fields together with the
  two things of its environment that its methods read or drive: the canvas (its current
  width and height) and the GPU device. The device is a recording double: every call the
  engine makes on the device or on an object obtained from it is appended to \<open>trace\<close>, and
  every object the device hands out is a fresh handle. Orderings ("destroyed after the
  submission") are then statements about the trace.

  A method that can throw returns \<open>(error + result) \<times> engine\<close>: the engine after a throw is
  the engine as the statements before the throw left it, as in JavaScript. The device
  records a call with the arguments it was given and validates nothing. Numbers that the
  engine only forwards to the device are integers.
  The asynchronous shader-compilation helpers (\<^verbatim>\<open>compile*\<close>) touch no field of the engine
  and are not embedded.
\<close>

subsection \<open>Values of the WebGPU API\<close>

type_synonym handle = nat
type_synonym number = int
type_synonym byte = "8 word"

datatype error = TypeError | RangeError | InvalidStateError
  \<comment> \<open>\<open>TypeError\<close>: a member access on \<^verbatim>\<open>undefined\<close> or \<^verbatim>\<open>null\<close>;
      \<open>RangeError\<close>: \<^verbatim>\<open>TypedArray.prototype.set\<close> with a source that does not fit;
      \<open>InvalidStateError\<close>: the name used by the specification's taxonomy, raised by no
      statement of the source.\<close>

text \<open>Constants of \<^verbatim>\<open>@webgpu/types/dist/constants\<close> (an external package), by name.\<close>

definition TextureFormat_BGRA8Unorm :: string where
  "TextureFormat_BGRA8Unorm = ''bgra8unorm''"
definition TextureFormat_Depth24PlusStencil8 :: string where
  "TextureFormat_Depth24PlusStencil8 = ''depth24plus-stencil8''"
definition TextureDimension_E2d :: string where
  "TextureDimension_E2d = ''2d''"
definition StoreOp_Store :: string where
  "StoreOp_Store = ''store''"
definition FrontFace_CCW :: string where
  "FrontFace_CCW = ''ccw''"
definition CullMode_None :: string where
  "CullMode_None = ''none''"
definition CompareFunction_Always :: string where
  "CompareFunction_Always = ''always''"
definition StencilOperation_Keep :: string where
  "StencilOperation_Keep = ''keep''"
definition BlendFactor_One :: string where
  "BlendFactor_One = ''one''"
definition BlendFactor_Zero :: string where
  "BlendFactor_Zero = ''zero''"
definition BlendOperation_Add :: string where
  "BlendOperation_Add = ''add''"
definition ColorWrite_All :: nat where
  "ColorWrite_All = 15"

datatype GPUBufferUsage =
  BufferUsage_MapRead | BufferUsage_MapWrite | BufferUsage_CopySrc | BufferUsage_CopyDst
  | BufferUsage_Index | BufferUsage_Vertex | BufferUsage_Uniform | BufferUsage_Storage
  | BufferUsage_Indirect

datatype GPUTextureUsage =
  TextureUsage_CopySrc | TextureUsage_CopyDst | TextureUsage_Sampled | TextureUsage_Storage
  | TextureUsage_OutputAttachment

text \<open>A bit mask of usage flags is the set of its flags; \<^verbatim>\<open>a | b\<close> is the union.\<close>

type_synonym GPUBufferUsageFlags = "GPUBufferUsage set"
type_synonym GPUTextureUsageFlags = "GPUTextureUsage set"

datatype load_value = LoadOp_Load | LoadColor "number list" | LoadNumber number

record GPUExtent3D =
  extent_width :: nat
  extent_height :: nat
  extent_depth :: nat

record GPUTextureDescriptor =
  tex_size :: GPUExtent3D
  arrayLayerCount :: nat
  mipLevelCount :: nat
  tex_sampleCount :: nat
  dimension :: string
  tex_format :: string
  tex_usage :: GPUTextureUsageFlags

record GPURenderPassColorAttachmentDescriptor =
  attachment :: handle
  resolveTarget :: "handle option"
  loadValue :: load_value
  storeOp :: string

record GPURenderPassDepthStencilAttachmentDescriptor =
  depth_attachment :: handle
  depthLoadValue :: load_value
  depthStoreOp :: string
  stencilLoadValue :: load_value
  stencilStoreOp :: string

record GPURenderBundleEncoderDescriptor =
  colorFormats :: "string list"
  depthStencilFormat :: string
  bundle_sampleCount :: nat

record GPUProgrammableStageDescriptor =
  stage_module :: handle
  entryPoint :: string

text \<open>
  The state descriptors have optional members only; an absent member is \<open>None\<close>. The same
  record types serve for what the caller passes and for what the engine builds.
\<close>

record GPURasterizationStateDescriptor =
  frontFace :: "string option"
  cullMode :: "string option"
  depthBias :: "number option"
  depthBiasSlopeScale :: "number option"
  depthBiasClamp :: "number option"

record GPUStencilStateFaceDescriptor =
  stencil_compare :: string
  depthFailOp :: string
  failOp :: string
  passOp :: string

record GPUDepthStencilStateDescriptor =
  depthWriteEnabled :: "bool option"
  depthCompare :: "string option"
  ds_format :: "string option"
  stencilFront :: "GPUStencilStateFaceDescriptor option"
  stencilBack :: "GPUStencilStateFaceDescriptor option"
  stencilReadMask :: "nat option"
  stencilWriteMask :: "nat option"

record GPUBlendDescriptor =
  srcFactor :: string
  dstFactor :: string
  operation :: string

record GPUColorStateDescriptor =
  cs_format :: "string option"
  alphaBlend :: "GPUBlendDescriptor option"
  colorBlend :: "GPUBlendDescriptor option"
  writeMask :: "nat option"

text \<open>The descriptor a draw call passes (\<^verbatim>\<open>WithOptional<Pick<GPURenderPipelineDescriptor, ...>>\<close>).\<close>

record render_pipeline_request =
  primitiveTopology :: "string option"
  rasterizationState :: "GPURasterizationStateDescriptor option"
  depthStencilState :: "GPUDepthStencilStateDescriptor option"
  colorStates :: "GPUColorStateDescriptor list option"
  vertexStage :: "GPUProgrammableStageDescriptor option"
  fragmentStage :: "GPUProgrammableStageDescriptor option"
  vertexState :: "handle option"
  layout :: "handle option"

text \<open>The descriptor the engine hands to \<^verbatim>\<open>device.createRenderPipeline\<close>.\<close>

record GPURenderPipelineDescriptor =
  pd_sampleCount :: nat
  pd_primitiveTopology :: string
  pd_rasterizationState :: GPURasterizationStateDescriptor
  pd_depthStencilState :: GPUDepthStencilStateDescriptor
  pd_colorStates :: "GPUColorStateDescriptor list"
  pd_layout :: "handle option"
  pd_vertexStage :: GPUProgrammableStageDescriptor
  pd_fragmentStage :: GPUProgrammableStageDescriptor
  pd_vertexState :: "handle option"

record GPUComputePipelineDescriptor =
  cd_layout :: "handle option"
  computeStage :: GPUProgrammableStageDescriptor

text \<open>A pipeline object: its identity and the descriptor it was compiled from.\<close>

datatype GPURenderPipeline = RenderPipeline handle GPURenderPipelineDescriptor
datatype GPUComputePipeline = ComputePipeline handle GPUComputePipelineDescriptor

text \<open>
  An \<^verbatim>\<open>ArrayBufferView\<close>: the bytes of the whole underlying \<^verbatim>\<open>ArrayBuffer\<close>, and the window
  of it that the view shows.
\<close>

record ArrayBufferView =
  view_buffer :: "byte list"
  byteOffset :: nat
  byteLength :: nat

subsection \<open>Reading a property of a plain object\<close>

text \<open>
  \<^verbatim>\<open>pipelines\<close> and \<^verbatim>\<open>computePipelines\<close> are plain objects (\<^verbatim>\<open>{}\<close>) used as dictionaries, so a read
  \<^verbatim>\<open>obj[name]\<close> that finds no own property goes on to \<^verbatim>\<open>Object.prototype\<close>. These are the
  members every object inherits from it in ECMAScript; each of them is a function or an
  object, hence truthy.
\<close>

definition Object_prototype :: "string list" where
  "Object_prototype =
     [''constructor'', ''hasOwnProperty'', ''isPrototypeOf'', ''propertyIsEnumerable'',
      ''toLocaleString'', ''toString'', ''valueOf'', ''__proto__'',
      ''__defineGetter__'', ''__defineSetter__'', ''__lookupGetter__'', ''__lookupSetter__'']"

text \<open>What a read yields when it is not \<^verbatim>\<open>undefined\<close>: a value stored in the object itself, or
  the inherited member of that name. \<open>None\<close> stands for \<^verbatim>\<open>undefined\<close>.\<close>

datatype 'p property = Own 'p | Inherited string

definition get_property :: "(string \<rightharpoonup> 'p) \<Rightarrow> string \<Rightarrow> 'p property option" where
  "get_property obj name =
     (case obj name of
        Some v \<Rightarrow> Some (Own v)
      | None \<Rightarrow> (if name \<in> set Object_prototype then Some (Inherited name) else None))"

subsection \<open>The recorded device calls\<close>

datatype gpu_call =
    RequestDevice handle
  | ConfigureSwapChain handle "string option" GPUTextureUsageFlags
  | CreateCommandEncoder handle string
  | Encoder_finish handle handle
  | Queue_submit "handle option list"
  | Buffer_destroy handle
  | Texture_destroy handle
  | CreateRenderBundleEncoder handle GPURenderBundleEncoderDescriptor
  | Bundle_finish handle handle
  | ExecuteBundles handle "handle list"
  | SetScissorRect handle number number number number
  | CreateTexture handle GPUTextureDescriptor
  | Texture_createView handle handle
  | GetCurrentTexture handle handle
  | BeginRenderPass handle handle "GPURenderPassColorAttachmentDescriptor list"
      "GPURenderPassDepthStencilAttachmentDescriptor option"
  | RenderPass_endPass handle
  | BeginComputePass handle handle
  | ComputePass_endPass handle
  | CreateRenderPipeline handle GPURenderPipelineDescriptor
  | CreateComputePipeline handle GPUComputePipelineDescriptor
  | SetPipeline handle "handle property option"
  | Draw handle number number number number
  | DrawIndexed handle number number number number number
  | SetBindGroup handle nat handle
  | SetIndexBuffer handle handle number
  | SetVertexBuffer handle nat handle "number option"
  | Dispatch handle number
  | CreateBuffer handle nat GPUBufferUsageFlags
  | CreateBufferMapped handle nat GPUBufferUsageFlags
  | Mapped_set handle "byte list"
  | Buffer_unmap handle
  | CopyBufferToBuffer handle handle nat handle number nat

subsection \<open>The engine\<close>

record IWebGPUEngineOptions =
  swapChainFormat :: "string option"
  antialiasing :: bool
  supportCompute :: bool

record engine =
  canvas_width :: nat
  canvas_height :: nat
  device :: "handle option"
  swapChain :: "handle option"
  pipelines :: "string \<rightharpoonup> GPURenderPipeline"
  computePipelines :: "string \<rightharpoonup> GPUComputePipeline"
  mainPassSampleCount :: nat
  mainTexture :: "handle option"
  depthTexture :: "handle option"
  mainColorAttachments :: "GPURenderPassColorAttachmentDescriptor list option"
  mainTextureExtends :: "GPUExtent3D option"
  mainDepthAttachment :: "GPURenderPassDepthStencilAttachmentDescriptor option"
  uploadEncoder :: "handle option"
  renderEncoder :: "handle option"
  computeEncoder :: "handle option"
  commandBuffers :: "handle option list"
  currentRenderPass :: "handle option"
  currentComputePass :: "handle option"
  bundleEncoder :: "handle option"
  tempBuffers :: "handle list"
  options :: IWebGPUEngineOptions
  next_handle :: handle
  trace :: "gpu_call list"

type_synonym 'a outcome = "(error + 'a) \<times> engine"

definition defaultSampleCount :: nat where
  "defaultSampleCount = 4"
definition clearDepthValue :: number where
  "clearDepthValue = 1"
definition clearStencilValue :: number where
  "clearStencilValue = 0"

text \<open>A device call that returns nothing, and one that returns a new object.\<close>

definition call :: "gpu_call \<Rightarrow> engine \<Rightarrow> engine" where
  "call c s = s\<lparr>trace := trace s @ [c]\<rparr>"

definition create :: "(handle \<Rightarrow> gpu_call) \<Rightarrow> engine \<Rightarrow> handle \<times> engine" where
  "create mk s =
     (next_handle s, s\<lparr>next_handle := Suc (next_handle s), trace := trace s @ [mk (next_handle s)]\<rparr>)"

text \<open>\<^verbatim>\<open>xs[i] = v\<close> on a JavaScript array: beyond the end the array grows, with holes.\<close>

definition js_set :: "'a option list \<Rightarrow> nat \<Rightarrow> 'a \<Rightarrow> 'a option list" where
  "js_set xs i v =
     (if i < length xs then xs[i := Some v]
      else xs @ replicate (i - length xs) None @ [Some v])"

definition new_WebGPUEngine :: "nat \<Rightarrow> nat \<Rightarrow> IWebGPUEngineOptions \<Rightarrow> engine" where
  "new_WebGPUEngine w h opts =
     \<lparr>canvas_width = w, canvas_height = h,
      device = None, swapChain = None,
      pipelines = Map.empty, computePipelines = Map.empty,
      mainPassSampleCount = (if antialiasing opts then defaultSampleCount else 1),
      mainTexture = None, depthTexture = None,
      mainColorAttachments = None, mainTextureExtends = None, mainDepthAttachment = None,
      uploadEncoder = None, renderEncoder = None, computeEncoder = None,
      commandBuffers = replicate 3 None,
      currentRenderPass = None, currentComputePass = None, bundleEncoder = None,
      tempBuffers = [],
      options = opts, next_handle = 0, trace = []\<rparr>"

definition and_then :: "'a outcome \<Rightarrow> ('a \<Rightarrow> engine \<Rightarrow> 'b outcome) \<Rightarrow> 'b outcome" where
  "and_then m f = (case m of (Inl e, s) \<Rightarrow> (Inl e, s) | (Inr v, s) \<Rightarrow> f v s)"

subsection \<open>Passes\<close>

definition endRenderPass :: "engine \<Rightarrow> engine" where
  "endRenderPass s =
     (case currentRenderPass s of
        Some p \<Rightarrow> (call (RenderPass_endPass p) s)\<lparr>currentRenderPass := None\<rparr>
      | None \<Rightarrow> s)"

definition endComputePass :: "engine \<Rightarrow> engine" where
  "endComputePass s =
     (case currentComputePass s of
        Some p \<Rightarrow> (call (ComputePass_endPass p) s)\<lparr>currentComputePass := None\<rparr>
      | None \<Rightarrow> s)"

definition startComputePass :: "engine \<Rightarrow> unit outcome" where
  "startComputePass s0 =
     (let s1 = (if currentComputePass s0 \<noteq> None then endComputePass s0 else s0)
      in case computeEncoder s1 of
           None \<Rightarrow> (Inl TypeError, s1)
         | Some c \<Rightarrow>
             (case create (BeginComputePass c) s1 of
                (p, s2) \<Rightarrow> (Inr (), s2\<lparr>currentComputePass := Some p\<rparr>)))"

definition startMainRenderPass :: "engine \<Rightarrow> unit outcome" where
  "startMainRenderPass s0 =
     (let s1 = (if currentRenderPass s0 \<noteq> None then endRenderPass s0 else s0)
      in case mainColorAttachments s1 of
           None \<Rightarrow> (Inl TypeError, s1)
         | Some [] \<Rightarrow> (Inl TypeError, s1)
         | Some (a # as) \<Rightarrow>
             (case swapChain s1 of
                None \<Rightarrow> (Inl TypeError, s1)
              | Some sc \<Rightarrow>
                  (case create (GetCurrentTexture sc) s1 of
                     (t, s2) \<Rightarrow>
                  (case create (Texture_createView t) s2 of
                     (v, s3) \<Rightarrow>
                       (let a' = (if antialiasing (options s3)
                                  then a\<lparr>resolveTarget := Some v\<rparr>
                                  else a\<lparr>attachment := v\<rparr>);
                            s4 = s3\<lparr>mainColorAttachments := Some (a' # as)\<rparr>
                        in case renderEncoder s4 of
                             None \<Rightarrow> (Inl TypeError, s4)
                           | Some r \<Rightarrow>
                               (case create (\<lambda>h. BeginRenderPass r h (a' # as)
                                                (mainDepthAttachment s4)) s4 of
                                  (p, s5) \<Rightarrow> (Inr (), s5\<lparr>currentRenderPass := Some p\<rparr>)))))))"

subsection \<open>Attachments\<close>

text \<open>The two halves of \<^verbatim>\<open>initMainAttachments\<close>: the colour attachment, then the depth one.\<close>

definition initColorAttachment :: "GPUExtent3D \<Rightarrow> engine \<Rightarrow> unit outcome" where
  "initColorAttachment ext s =
     (if antialiasing (options s) then
        (let mainTextureDescriptor =
               \<lparr>tex_size = ext, arrayLayerCount = 1, mipLevelCount = 1,
                tex_sampleCount = mainPassSampleCount s,
                dimension = TextureDimension_E2d,
                tex_format = TextureFormat_BGRA8Unorm,
                tex_usage = {TextureUsage_OutputAttachment}\<rparr>;
             s1 = (case mainTexture s of
                     Some old \<Rightarrow> call (Texture_destroy old) s
                   | None \<Rightarrow> s)
         in case device s1 of
              None \<Rightarrow> (Inl TypeError, s1)
            | Some d \<Rightarrow>
                (case create (\<lambda>h. CreateTexture h mainTextureDescriptor) s1 of
                   (t, s2) \<Rightarrow>
                (case create (Texture_createView t) (s2\<lparr>mainTexture := Some t\<rparr>) of
                   (v, s3) \<Rightarrow>
                     (Inr (), s3\<lparr>mainColorAttachments :=
                        Some [\<lparr>attachment = v, resolveTarget = None,
                               loadValue = LoadColor [0, 0, 0, 1],
                               storeOp = StoreOp_Store\<rparr>]\<rparr>))))
      else
        (case swapChain s of
           None \<Rightarrow> (Inl TypeError, s)
         | Some sc \<Rightarrow>
             (case create (GetCurrentTexture sc) s of
                (t, s1) \<Rightarrow>
             (case create (Texture_createView t) s1 of
                (v, s2) \<Rightarrow>
                  (Inr (), s2\<lparr>mainColorAttachments :=
                     Some [\<lparr>attachment = v, resolveTarget = None,
                            loadValue = LoadColor [0, 0, 0, 1],
                            storeOp = StoreOp_Store\<rparr>]\<rparr>)))))"

definition initDepthAttachment :: "GPUExtent3D \<Rightarrow> engine \<Rightarrow> unit outcome" where
  "initDepthAttachment ext s =
     (let depthTextureDescriptor =
            \<lparr>tex_size = ext, arrayLayerCount = 1, mipLevelCount = 1,
             tex_sampleCount = mainPassSampleCount s,
             dimension = TextureDimension_E2d,
             tex_format = TextureFormat_Depth24PlusStencil8,
             tex_usage = {TextureUsage_OutputAttachment}\<rparr>;
          s1 = (case depthTexture s of
                  Some old \<Rightarrow> call (Texture_destroy old) s
                | None \<Rightarrow> s)
      in case device s1 of
           None \<Rightarrow> (Inl TypeError, s1)
         | Some d \<Rightarrow>
             (case create (\<lambda>h. CreateTexture h depthTextureDescriptor) s1 of
                (t, s2) \<Rightarrow>
             (case create (Texture_createView t) (s2\<lparr>depthTexture := Some t\<rparr>) of
                (v, s3) \<Rightarrow>
                  (Inr (), s3\<lparr>mainDepthAttachment :=
                     Some \<lparr>depth_attachment = v,
                           depthLoadValue = LoadNumber clearDepthValue,
                           depthStoreOp = StoreOp_Store,
                           stencilLoadValue = LoadNumber clearStencilValue,
                           stencilStoreOp = StoreOp_Store\<rparr>\<rparr>))))"

definition initMainAttachments :: "engine \<Rightarrow> unit outcome" where
  "initMainAttachments s =
     (let ext = \<lparr>extent_width = canvas_width s, extent_height = canvas_height s,
                 extent_depth = 1\<rparr>
      in and_then (initColorAttachment ext (s\<lparr>mainTextureExtends := Some ext\<rparr>))
           (\<lambda>_. initDepthAttachment ext))"

definition setSize :: "number \<Rightarrow> number \<Rightarrow> engine \<Rightarrow> unit outcome" where
  "setSize width height s = initMainAttachments s"

text \<open>
  \<^verbatim>\<open>init\<close>: \<open>adapter\<close> tells whether \<^verbatim>\<open>navigator.gpu.requestAdapter()\<close> yields an adapter;
  without one, \<^verbatim>\<open>this.adapter.requestDevice()\<close> throws.
\<close>

definition init :: "bool \<Rightarrow> engine \<Rightarrow> unit outcome" where
  "init adapter s =
     (if \<not> adapter then (Inl TypeError, s)
      else case create RequestDevice s of
        (d, s1) \<Rightarrow>
          (case create (\<lambda>h. ConfigureSwapChain h (swapChainFormat (options s1))
                          {TextureUsage_OutputAttachment, TextureUsage_CopySrc})
                  (s1\<lparr>device := Some d\<rparr>) of
             (sc, s2) \<Rightarrow> initMainAttachments (s2\<lparr>swapChain := Some sc\<rparr>)))"

definition dispose :: "engine \<Rightarrow> engine" where
  "dispose s =
     (let s1 = (case mainTexture s of Some t \<Rightarrow> call (Texture_destroy t) s | None \<Rightarrow> s)
      in case depthTexture s1 of Some t \<Rightarrow> call (Texture_destroy t) s1 | None \<Rightarrow> s1)"

definition clear :: "number list \<Rightarrow> bool \<Rightarrow> bool \<Rightarrow> bool \<Rightarrow> engine \<Rightarrow> unit outcome" where
  "clear color backBuffer depth stencil s =
     (case mainColorAttachments s of
        None \<Rightarrow> (Inl TypeError, s)
      | Some [] \<Rightarrow> (Inl TypeError, s)
      | Some (a # as) \<Rightarrow>
          (let s1 = s\<lparr>mainColorAttachments :=
                       Some (a\<lparr>loadValue := (if backBuffer then LoadColor color
                                              else LoadOp_Load)\<rparr> # as)\<rparr>
           in case mainDepthAttachment s1 of
                None \<Rightarrow> (Inl TypeError, s1)
              | Some d \<Rightarrow>
                  (let s2 = s1\<lparr>mainDepthAttachment :=
                       Some (d\<lparr>depthLoadValue :=
                                 (if depth then LoadNumber clearDepthValue else LoadOp_Load),
                               stencilLoadValue :=
                                 (if stencil then LoadNumber clearStencilValue
                                  else LoadOp_Load)\<rparr>)\<rparr>
                   in and_then (startMainRenderPass s2)
                        (\<lambda>_ s3. if supportCompute (options s3) then startComputePass s3
                                else (Inr (), s3)))))"

subsection \<open>The frame\<close>

definition beginFrame :: "engine \<Rightarrow> unit outcome" where
  "beginFrame s =
     (case device s of
        None \<Rightarrow> (Inl TypeError, s)
      | Some d \<Rightarrow>
          (case create (\<lambda>h. CreateCommandEncoder h ''upload'') s of
             (u, s1) \<Rightarrow>
          (case create (\<lambda>h. CreateCommandEncoder h ''render'') (s1\<lparr>uploadEncoder := Some u\<rparr>) of
             (r, s2) \<Rightarrow>
          (case create (\<lambda>h. CreateCommandEncoder h ''compute'') (s2\<lparr>renderEncoder := Some r\<rparr>) of
             (c, s3) \<Rightarrow> (Inr (), s3\<lparr>computeEncoder := Some c\<rparr>)))))"

text \<open>\<^verbatim>\<open>this.commandBuffers[i] = encoder.finish()\<close> for the encoder held in a field.\<close>

definition finishInto :: "nat \<Rightarrow> handle option \<Rightarrow> engine \<Rightarrow> unit outcome" where
  "finishInto i encoder s =
     (case encoder of
        None \<Rightarrow> (Inl TypeError, s)
      | Some e \<Rightarrow>
          (case create (Encoder_finish e) s of
             (cb, s1) \<Rightarrow> (Inr (), s1\<lparr>commandBuffers := js_set (commandBuffers s1) i cb\<rparr>)))"

definition endFrame :: "engine \<Rightarrow> unit outcome" where
  "endFrame s0 =
     (let s1 = endRenderPass s0;
          s2 = (if supportCompute (options s1) then endComputePass s1 else s1)
      in and_then (finishInto 0 (uploadEncoder s2) s2) (\<lambda>_ s3.
         and_then (finishInto 1 (renderEncoder s3) s3) (\<lambda>_ s4.
         and_then (finishInto 2 (computeEncoder s4) s4) (\<lambda>_ s5.
           case device s5 of
             None \<Rightarrow> (Inl TypeError, s5)
           | Some d \<Rightarrow>
               (let s6 = call (Queue_submit (commandBuffers s5)) s5;
                    s7 = s6\<lparr>trace := trace s6 @ map Buffer_destroy (tempBuffers s6)\<rparr>
                in (Inr (), s7\<lparr>tempBuffers := []\<rparr>))))))"

subsection \<open>Bundles and scissor\<close>

definition startRecordBundle :: "engine \<Rightarrow> unit outcome" where
  "startRecordBundle s =
     (case device s of
        None \<Rightarrow> (Inl TypeError, s)
      | Some d \<Rightarrow>
          (case create (\<lambda>h. CreateRenderBundleEncoder h
                          \<lparr>colorFormats = [TextureFormat_BGRA8Unorm],
                           depthStencilFormat = TextureFormat_Depth24PlusStencil8,
                           bundle_sampleCount = mainPassSampleCount s\<rparr>) s of
             (b, s1) \<Rightarrow> (Inr (), s1\<lparr>bundleEncoder := Some b\<rparr>)))"

definition stopRecordBundle :: "engine \<Rightarrow> handle outcome" where
  "stopRecordBundle s =
     (case bundleEncoder s of
        None \<Rightarrow> (Inl TypeError, s)
      | Some b \<Rightarrow>
          (case create (Bundle_finish b) s of
             (bundle, s1) \<Rightarrow> (Inr bundle, s1\<lparr>bundleEncoder := None\<rparr>)))"

definition executeBundles :: "handle list \<Rightarrow> engine \<Rightarrow> unit outcome" where
  "executeBundles bundles s =
     and_then (if currentRenderPass s = None then startMainRenderPass s else (Inr (), s))
       (\<lambda>_ s1. case currentRenderPass s1 of
                  None \<Rightarrow> (Inr (), s1)
                | Some p \<Rightarrow> (Inr (), call (ExecuteBundles p bundles) s1))"

definition enableScissor :: "number \<Rightarrow> number \<Rightarrow> number \<Rightarrow> number \<Rightarrow> engine \<Rightarrow> unit outcome" where
  "enableScissor x y width height s =
     and_then (if currentRenderPass s = None then startMainRenderPass s else (Inr (), s))
       (\<lambda>_ s1. case currentRenderPass s1 of
                  None \<Rightarrow> (Inl TypeError, s1)
                | Some p \<Rightarrow> (Inr (), call (SetScissorRect p x y width height) s1))"

definition disableScissor :: "engine \<Rightarrow> unit outcome" where
  "disableScissor s =
     and_then (if currentRenderPass s = None then startMainRenderPass s else (Inr (), s))
       (\<lambda>_ s1. case currentRenderPass s1 of
                  None \<Rightarrow> (Inr (), s1)
                | Some p \<Rightarrow>
                    (Inr (), call (SetScissorRect p 0 0 (int (canvas_width s1))
                                     (int (canvas_height s1))) s1))"

subsection \<open>Pipelines\<close>

definition getDefaultRasterizationStateDescriptor :: GPURasterizationStateDescriptor where
  "getDefaultRasterizationStateDescriptor =
     \<lparr>frontFace = Some FrontFace_CCW, cullMode = Some CullMode_None,
      depthBias = Some 0, depthBiasSlopeScale = Some 0, depthBiasClamp = Some 0\<rparr>"

definition getDefaultDepthStencilStateDescriptor :: GPUDepthStencilStateDescriptor where
  "getDefaultDepthStencilStateDescriptor =
     (let stencilFrontBack =
            \<lparr>stencil_compare = CompareFunction_Always,
             depthFailOp = StencilOperation_Keep,
             failOp = StencilOperation_Keep,
             passOp = StencilOperation_Keep\<rparr>
      in \<lparr>depthWriteEnabled = Some False,
          depthCompare = Some CompareFunction_Always,
          ds_format = Some TextureFormat_Depth24PlusStencil8,
          stencilFront = Some stencilFrontBack,
          stencilBack = Some stencilFrontBack,
          stencilReadMask = Some 4294967295,
          stencilWriteMask = Some 4294967295\<rparr>)"

definition getDefaultColorStateDescriptors :: "engine \<Rightarrow> GPUColorStateDescriptor list" where
  "getDefaultColorStateDescriptors s =
     [\<lparr>cs_format = swapChainFormat (options s),
       alphaBlend = Some \<lparr>srcFactor = BlendFactor_One, dstFactor = BlendFactor_Zero,
                          operation = BlendOperation_Add\<rparr>,
       colorBlend = Some \<lparr>srcFactor = BlendFactor_One, dstFactor = BlendFactor_Zero,
                          operation = BlendOperation_Add\<rparr>,
       writeMask = Some ColorWrite_All\<rparr>]"

text \<open>One member of \<^verbatim>\<open>{...defaults, ...given}\<close>: the given object's member when it has one.\<close>

definition spread :: "('r \<Rightarrow> 'a option) \<Rightarrow> 'r \<Rightarrow> 'r option \<Rightarrow> 'a option" where
  "spread member defaults given =
     (case given of
        None \<Rightarrow> member defaults
      | Some g \<Rightarrow> (case member g of Some v \<Rightarrow> Some v | None \<Rightarrow> member defaults))"

definition spreadRasterizationState ::
  "GPURasterizationStateDescriptor option \<Rightarrow> GPURasterizationStateDescriptor" where
  "spreadRasterizationState given =
     (let d = getDefaultRasterizationStateDescriptor
      in \<lparr>frontFace = spread frontFace d given,
          cullMode = spread cullMode d given,
          depthBias = spread depthBias d given,
          depthBiasSlopeScale = spread depthBiasSlopeScale d given,
          depthBiasClamp = spread depthBiasClamp d given\<rparr>)"

definition spreadDepthStencilState ::
  "GPUDepthStencilStateDescriptor option \<Rightarrow> GPUDepthStencilStateDescriptor" where
  "spreadDepthStencilState given =
     (let d = getDefaultDepthStencilStateDescriptor
      in \<lparr>depthWriteEnabled = spread depthWriteEnabled d given,
          depthCompare = spread depthCompare d given,
          ds_format = spread ds_format d given,
          stencilFront = spread stencilFront d given,
          stencilBack = spread stencilBack d given,
          stencilReadMask = spread stencilReadMask d given,
          stencilWriteMask = spread stencilWriteMask d given\<rparr>)"

text \<open>The object literal passed to \<^verbatim>\<open>createRenderPipeline\<close>, both stages being present.\<close>

definition renderPipelineDescriptor ::
  "engine \<Rightarrow> render_pipeline_request \<Rightarrow> GPUProgrammableStageDescriptor \<Rightarrow>
   GPUProgrammableStageDescriptor \<Rightarrow> GPURenderPipelineDescriptor" where
  "renderPipelineDescriptor s descriptor vs fs =
     \<lparr>pd_sampleCount = mainPassSampleCount s,
      pd_primitiveTopology =
        (case primitiveTopology descriptor of
           None \<Rightarrow> ''triangle-list''
         | Some t \<Rightarrow> if t = [] then ''triangle-list'' else t),
      pd_rasterizationState = spreadRasterizationState (rasterizationState descriptor),
      pd_depthStencilState = spreadDepthStencilState (depthStencilState descriptor),
      pd_colorStates =
        (case colorStates descriptor of
           None \<Rightarrow> getDefaultColorStateDescriptors s
         | Some cs \<Rightarrow> cs),
      pd_layout = layout descriptor,
      pd_vertexStage = vs,
      pd_fragmentStage = fs,
      pd_vertexState = vertexState descriptor\<rparr>"

text \<open>
  The value returned is typed \<^verbatim>\<open>GPURenderPipeline | null\<close>; under a name inherited from
  \<^verbatim>\<open>Object.prototype\<close> it is the inherited member.
\<close>

definition getRenderPipeline ::
  "string \<Rightarrow> render_pipeline_request \<Rightarrow> engine \<Rightarrow> GPURenderPipeline property option outcome" where
  "getRenderPipeline name descriptor s =
     (case get_property (pipelines s) name of
        Some p \<Rightarrow> (Inr (Some p), s)
      | None \<Rightarrow>
          (case vertexStage descriptor of
             None \<Rightarrow> (Inr None, s)
           | Some vs \<Rightarrow>
               (case fragmentStage descriptor of
                  None \<Rightarrow> (Inr None, s)
                | Some fs \<Rightarrow>
                    (case device s of
                       None \<Rightarrow> (Inl TypeError, s)
                     | Some d \<Rightarrow>
                         (let full = renderPipelineDescriptor s descriptor vs fs
                          in case create (\<lambda>h. CreateRenderPipeline h full) s of
                               (h, s1) \<Rightarrow>
                                 (Inr (Some (Own (RenderPipeline h full))),
                                  s1\<lparr>pipelines :=
                                       (pipelines s1)(name \<mapsto> RenderPipeline h full)\<rparr>))))))"

text \<open>\<^verbatim>\<open>this.bundleEncoder || this.currentRenderPass!\<close>\<close>

definition renderPassTarget :: "engine \<Rightarrow> handle option" where
  "renderPassTarget s =
     (case bundleEncoder s of Some b \<Rightarrow> Some b | None \<Rightarrow> currentRenderPass s)"

fun pipeline_handle :: "GPURenderPipeline \<Rightarrow> handle" where
  "pipeline_handle (RenderPipeline h d) = h"

fun compute_pipeline_handle :: "GPUComputePipeline \<Rightarrow> handle" where
  "compute_pipeline_handle (ComputePipeline h d) = h"

definition setRenderPipeline :: "string \<Rightarrow> render_pipeline_request \<Rightarrow> engine \<Rightarrow> unit outcome" where
  "setRenderPipeline name descriptor s =
     (let renderPass = renderPassTarget s
      in and_then (getRenderPipeline name descriptor s)
           (\<lambda>pipeline s1.
              case pipeline of
                None \<Rightarrow> (Inr (), s1)
              | Some p \<Rightarrow>
                  (case renderPass of
                     None \<Rightarrow> (Inl TypeError, s1)
                   | Some t \<Rightarrow>
                       (Inr (), call (SetPipeline t (Some (map_property pipeline_handle p))) s1))))"

definition drawElementsType ::
  "string \<Rightarrow> render_pipeline_request \<Rightarrow> number \<Rightarrow> number \<Rightarrow> number option \<Rightarrow> engine
   \<Rightarrow> unit outcome" where
  "drawElementsType pipelineName descriptor indexStart indexCount instancesCount s =
     (let renderPass = renderPassTarget s
      in and_then (setRenderPipeline pipelineName descriptor s)
           (\<lambda>_ s1.
              case renderPass of
                None \<Rightarrow> (Inl TypeError, s1)
              | Some t \<Rightarrow>
                  (Inr (), call (DrawIndexed t indexCount
                                   (case instancesCount of None \<Rightarrow> 1 | Some n \<Rightarrow> n)
                                   indexStart 0 0) s1)))"

definition drawArraysType ::
  "string \<Rightarrow> render_pipeline_request \<Rightarrow> number \<Rightarrow> number \<Rightarrow> number option \<Rightarrow> engine
   \<Rightarrow> unit outcome" where
  "drawArraysType pipelineName descriptor verticesStart verticesCount instancesCount s =
     (let renderPass = renderPassTarget s
      in and_then (setRenderPipeline pipelineName descriptor s)
           (\<lambda>_ s1.
              case renderPass of
                None \<Rightarrow> (Inl TypeError, s1)
              | Some t \<Rightarrow>
                  (Inr (), call (Draw t verticesCount
                                   (case instancesCount of None \<Rightarrow> 1 | Some n \<Rightarrow> n)
                                   verticesStart 0) s1)))"

definition setComputePipeline ::
  "string \<Rightarrow> GPUComputePipelineDescriptor \<Rightarrow> engine \<Rightarrow> unit outcome" where
  "setComputePipeline computePipelineName descriptor s =
     and_then
       (case get_property (computePipelines s) computePipelineName of
          Some p \<Rightarrow> (Inr (), s)
        | None \<Rightarrow>
            (case device s of
               None \<Rightarrow> (Inl TypeError, s)
             | Some d \<Rightarrow>
                 (case create (\<lambda>h. CreateComputePipeline h descriptor) s of
                    (h, s1) \<Rightarrow>
                      (Inr (), s1\<lparr>computePipelines :=
                         (computePipelines s1)(computePipelineName \<mapsto>
                            ComputePipeline h descriptor)\<rparr>))))
       (\<lambda>_ s2.
          case currentComputePass s2 of
            None \<Rightarrow> (Inr (), s2)
          | Some pass \<Rightarrow>
              (Inr (),
               call (SetPipeline pass
                       (map_option (map_property compute_pipeline_handle)
                          (get_property (computePipelines s2) computePipelineName))) s2))"

subsection \<open>Buffers\<close>

text \<open>
  \<^verbatim>\<open>new Uint8Array(arrayBuffer).set(new Uint8Array(srcArrayBuffer.buffer))\<close> writes the whole
  underlying buffer of the view, from offset 0, into the mapped range of \<open>byteCount\<close> bytes,
  and throws when it is longer than the range.
\<close>

definition setSubData :: "handle \<Rightarrow> number \<Rightarrow> ArrayBufferView \<Rightarrow> engine \<Rightarrow> unit outcome" where
  "setSubData destBuffer destOffset srcArrayBuffer s =
     (let byteCount = byteLength srcArrayBuffer
      in case device s of
           None \<Rightarrow> (Inl TypeError, s)
         | Some d \<Rightarrow>
             (case create (\<lambda>h. CreateBufferMapped h byteCount {BufferUsage_CopySrc}) s of
                (srcBuffer, s1) \<Rightarrow>
                  (if byteCount < length (view_buffer srcArrayBuffer) then (Inl RangeError, s1)
                   else
                     (let s2 = call (Buffer_unmap srcBuffer)
                                 (call (Mapped_set srcBuffer (view_buffer srcArrayBuffer)) s1)
                      in case uploadEncoder s2 of
                           None \<Rightarrow> (Inl TypeError, s2)
                         | Some u \<Rightarrow>
                             (let s3 = call (CopyBufferToBuffer u srcBuffer 0 destBuffer
                                               destOffset byteCount) s2
                              in (Inr (), s3\<lparr>tempBuffers := tempBuffers s3 @ [srcBuffer]\<rparr>))))))"

definition createBuffer :: "ArrayBufferView \<Rightarrow> GPUBufferUsageFlags \<Rightarrow> engine \<Rightarrow> handle outcome" where
  "createBuffer view flags s =
     (let padding = byteLength view mod 4
      in case device s of
           None \<Rightarrow> (Inl TypeError, s)
         | Some d \<Rightarrow>
             (case create (\<lambda>h. CreateBuffer h (byteLength view + padding) flags) s of
                (buffer, s1) \<Rightarrow>
                  and_then (setSubData buffer 0 view s1) (\<lambda>_ s2. (Inr buffer, s2))))"

text \<open>
  What \<^verbatim>\<open>createVertexBuffer\<close> and \<^verbatim>\<open>createUniformBuffer\<close> accept. The elements of a
  \<^verbatim>\<open>number[]\<close> are given by their float32 encodings (rounding a number to float32 is not
  modelled); \<^verbatim>\<open>new Float32Array(data)\<close> lays them out in little-endian order.
\<close>

datatype buffer_data =
  NumberArray "32 word list" | RawArrayBuffer "byte list" | View ArrayBufferView

definition float32_bytes :: "32 word \<Rightarrow> byte list" where
  "float32_bytes w = [ucast w, ucast (drop_bit 8 w), ucast (drop_bit 16 w), ucast (drop_bit 24 w)]"

fun to_view :: "buffer_data \<Rightarrow> ArrayBufferView" where
  "to_view (NumberArray ws) =
     \<lparr>view_buffer = concat (map float32_bytes ws), byteOffset = 0, byteLength = 4 * length ws\<rparr>"
| "to_view (RawArrayBuffer bs) = \<lparr>view_buffer = bs, byteOffset = 0, byteLength = length bs\<rparr>"
| "to_view (View v) = v"

definition createVertexBuffer :: "buffer_data \<Rightarrow> GPUBufferUsageFlags \<Rightarrow> engine \<Rightarrow> handle outcome" where
  "createVertexBuffer data usage s =
     createBuffer (to_view data) ({BufferUsage_Vertex} \<union> {BufferUsage_CopyDst} \<union> usage) s"

definition createUniformBuffer :: "buffer_data \<Rightarrow> engine \<Rightarrow> handle outcome" where
  "createUniformBuffer data s =
     createBuffer (to_view data) ({BufferUsage_Uniform} \<union> {BufferUsage_CopyDst}) s"

subsection \<open>Binding and dispatch\<close>

text \<open>The loop \<^verbatim>\<open>for (let i = 0; i < bindGroups.length; i++) pass.setBindGroup(i, bindGroups[i])\<close>,
  from index \<open>i\<close> on.\<close>

fun setBindGroups :: "handle option \<Rightarrow> nat \<Rightarrow> handle list \<Rightarrow> engine \<Rightarrow> unit outcome" where
  "setBindGroups pass i [] s = (Inr (), s)"
| "setBindGroups pass i (g # gs) s =
     (case pass of
        None \<Rightarrow> (Inl TypeError, s)
      | Some t \<Rightarrow> setBindGroups pass (Suc i) gs (call (SetBindGroup t i g) s))"

definition setRenderBindGroups :: "handle list \<Rightarrow> engine \<Rightarrow> unit outcome" where
  "setRenderBindGroups bindGroups s = setBindGroups (renderPassTarget s) 0 bindGroups s"

definition setComputeBindGroups :: "handle list \<Rightarrow> engine \<Rightarrow> unit outcome" where
  "setComputeBindGroups bindGroups s =
     (case currentComputePass s of
        None \<Rightarrow> (Inr (), s)
      | Some p \<Rightarrow> setBindGroups (Some p) 0 bindGroups s)"

record vertex_inputs =
  indexBuffer :: "handle option"
  indexOffset :: number
  vertexStartSlot :: nat
  vertexBuffers :: "handle option list"
  vertexOffsets :: "number list"

text \<open>The loop over \<^verbatim>\<open>vertexInputs.vertexBuffers\<close>, from index \<open>i\<close> on; a hole is skipped, and
  \<^verbatim>\<open>vertexOffsets[i]\<close> beyond the end is \<^verbatim>\<open>undefined\<close>.\<close>

fun setVertexBuffers ::
  "handle option \<Rightarrow> nat \<Rightarrow> number list \<Rightarrow> nat \<Rightarrow> handle option list \<Rightarrow> engine \<Rightarrow> unit outcome" where
  "setVertexBuffers pass start offsets i [] s = (Inr (), s)"
| "setVertexBuffers pass start offsets i (None # bs) s =
     setVertexBuffers pass start offsets (Suc i) bs s"
| "setVertexBuffers pass start offsets i (Some buf # bs) s =
     (case pass of
        None \<Rightarrow> (Inl TypeError, s)
      | Some t \<Rightarrow>
          setVertexBuffers pass start offsets (Suc i) bs
            (call (SetVertexBuffer t (start + i) buf
                     (if i < length offsets then Some (offsets ! i) else None)) s))"

definition bindVertexInputs :: "vertex_inputs \<Rightarrow> engine \<Rightarrow> unit outcome" where
  "bindVertexInputs vertexInputs s =
     (let renderPass = renderPassTarget s
      in and_then
           (case indexBuffer vertexInputs of
              None \<Rightarrow> (Inr (), s)
            | Some ib \<Rightarrow>
                (case renderPass of
                   None \<Rightarrow> (Inl TypeError, s)
                 | Some t \<Rightarrow> (Inr (), call (SetIndexBuffer t ib (indexOffset vertexInputs)) s)))
           (\<lambda>_. setVertexBuffers renderPass (vertexStartSlot vertexInputs)
                   (vertexOffsets vertexInputs) 0 (vertexBuffers vertexInputs)))"

definition dispatch :: "number \<Rightarrow> engine \<Rightarrow> unit outcome" where
  "dispatch num s =
     (case currentComputePass s of
        None \<Rightarrow> (Inr (), s)
      | Some p \<Rightarrow> (Inr (), call (Dispatch p num) s))"

subsection \<open>Runs of the public interface\<close>

text \<open>
  What a caller can do with an engine: call a public method, or resize the canvas the engine
  was built on. \<open>step\<close> is the engine afterwards, whether the call returned or threw.
\<close>

datatype op =
    Op_init bool
  | Op_beginFrame
  | Op_endFrame
  | Op_startRecordBundle
  | Op_stopRecordBundle
  | Op_executeBundles "handle list"
  | Op_enableScissor number number number number
  | Op_disableScissor
  | Op_setSize number number
  | Op_clear "number list" bool bool bool
  | Op_dispose
  | Op_drawElementsType string render_pipeline_request number number "number option"
  | Op_drawArraysType string render_pipeline_request number number "number option"
  | Op_createVertexBuffer buffer_data GPUBufferUsageFlags
  | Op_createUniformBuffer buffer_data
  | Op_setRenderBindGroups "handle list"
  | Op_setComputeBindGroups "handle list"
  | Op_setComputePipeline string GPUComputePipelineDescriptor
  | Op_setSubData handle number ArrayBufferView
  | Op_bindVertexInputs vertex_inputs
  | Op_dispatch number
  | Op_resizeCanvas nat nat

fun step :: "op \<Rightarrow> engine \<Rightarrow> engine" where
  "step (Op_init adapter) s = snd (init adapter s)"
| "step Op_beginFrame s = snd (beginFrame s)"
| "step Op_endFrame s = snd (endFrame s)"
| "step Op_startRecordBundle s = snd (startRecordBundle s)"
| "step Op_stopRecordBundle s = snd (stopRecordBundle s)"
| "step (Op_executeBundles bs) s = snd (executeBundles bs s)"
| "step (Op_enableScissor x y w h) s = snd (enableScissor x y w h s)"
| "step Op_disableScissor s = snd (disableScissor s)"
| "step (Op_setSize w h) s = snd (setSize w h s)"
| "step (Op_clear c b d st) s = snd (clear c b d st s)"
| "step Op_dispose s = dispose s"
| "step (Op_drawElementsType n d a b c) s = snd (drawElementsType n d a b c s)"
| "step (Op_drawArraysType n d a b c) s = snd (drawArraysType n d a b c s)"
| "step (Op_createVertexBuffer d u) s = snd (createVertexBuffer d u s)"
| "step (Op_createUniformBuffer d) s = snd (createUniformBuffer d s)"
| "step (Op_setRenderBindGroups gs) s = snd (setRenderBindGroups gs s)"
| "step (Op_setComputeBindGroups gs) s = snd (setComputeBindGroups gs s)"
| "step (Op_setComputePipeline n d) s = snd (setComputePipeline n d s)"
| "step (Op_setSubData b off v) s = snd (setSubData b off v s)"
| "step (Op_bindVertexInputs vi) s = snd (bindVertexInputs vi s)"
| "step (Op_dispatch n) s = snd (dispatch n s)"
| "step (Op_resizeCanvas w h) s = s\<lparr>canvas_width := w, canvas_height := h\<rparr>"

fun run :: "op list \<Rightarrow> engine \<Rightarrow> engine" where
  "run [] s = s"
| "run (x # xs) s = run xs (step x s)"

inductive reachable :: "engine \<Rightarrow> bool" where
  reachable_new: "reachable (new_WebGPUEngine w h opts)"
| reachable_step: "reachable s \<Longrightarrow> reachable (step x s)"


subsection \<open>What holds of every engine a caller can reach\<close>

text \<open>
  The render-pass protocol of the device, read off the trace: a render pass is begun only
  while none is open, and \<^verbatim>\<open>endPass\<close> ends the pass that is open. The result is the pass
  left open by the trace, or \<open>None\<close> when the trace breaks the protocol.
\<close>

definition pass_step :: "handle option option \<Rightarrow> gpu_call \<Rightarrow> handle option option" where
  "pass_step st c =
     (case st of
        None \<Rightarrow> None
      | Some cur \<Rightarrow>
          (case c of
             BeginRenderPass e p cs d \<Rightarrow> (if cur = None then Some (Some p) else None)
           | RenderPass_endPass p \<Rightarrow> (if cur = Some p then Some None else None)
           | _ \<Rightarrow> Some cur))"

definition render_pass_protocol :: "gpu_call list \<Rightarrow> handle option option" where
  "render_pass_protocol tr = foldl pass_step (Some None) tr"

text \<open>
  The invariant of the engines reachable through the public interface: an open render pass
  has its encoder, the swap chain and a colour attachment; the three encoders exist
  together, and only with a device, as does a bundle encoder; \<open>commandBuffers\<close> keeps its
  three slots; the sample count is the one chosen at construction; and the trace follows the
  render-pass protocol, leaving open the pass held in \<open>currentRenderPass\<close>.
\<close>

definition engine_ok :: "engine \<Rightarrow> bool" where
  "engine_ok s \<longleftrightarrow>
     (currentRenderPass s \<noteq> None \<longrightarrow>
        renderEncoder s \<noteq> None \<and> swapChain s \<noteq> None \<and>
        (case mainColorAttachments s of Some (a # as) \<Rightarrow> True | _ \<Rightarrow> False)) \<and>
     (uploadEncoder s = None \<longleftrightarrow> renderEncoder s = None) \<and>
     (renderEncoder s = None \<longleftrightarrow> computeEncoder s = None) \<and>
     (uploadEncoder s \<noteq> None \<or> bundleEncoder s \<noteq> None \<longrightarrow> device s \<noteq> None) \<and>
     length (commandBuffers s) = 3 \<and>
     mainPassSampleCount s = (if antialiasing (options s) then defaultSampleCount else 1) \<and>
     render_pass_protocol (trace s) = Some (currentRenderPass s)"


text \<open>
  \<open>quiet s s'\<close>: from \<open>s\<close> to \<open>s'\<close> the engine made device calls none of which destroys a
  buffer, only added to the list of staging buffers, and kept the upload encoder if it had
  one.
\<close>

definition quiet :: "engine \<Rightarrow> engine \<Rightarrow> bool" where
  "quiet s s' \<longleftrightarrow>
     (\<exists>evs. trace s' = trace s @ evs \<and> (\<forall>b. Buffer_destroy b \<notin> set evs)) \<and>
     (\<exists>bs. tempBuffers s' = tempBuffers s @ bs) \<and>
     (uploadEncoder s \<noteq> None \<longrightarrow> uploadEncoder s' \<noteq> None)"

text \<open>The calls with which \<^verbatim>\<open>endFrame\<close> closes the passes that are open.\<close>

definition closing_calls :: "engine \<Rightarrow> gpu_call list" where
  "closing_calls s =
     (case currentRenderPass s of Some p \<Rightarrow> [RenderPass_endPass p] | None \<Rightarrow> []) @
     (if supportCompute (options s)
      then (case currentComputePass s of Some q \<Rightarrow> [ComputePass_endPass q] | None \<Rightarrow> [])
      else [])"

text \<open>The pass or bundle encoder on which a pipeline, draw, bind-group or vertex-input call
  is made; \<open>None\<close> for every other call.\<close>

definition receiver :: "gpu_call \<Rightarrow> handle option" where
  "receiver c =
     (case c of
        SetPipeline t p \<Rightarrow> Some t
      | Draw t a b c d \<Rightarrow> Some t
      | DrawIndexed t a b c d e \<Rightarrow> Some t
      | SetBindGroup t i g \<Rightarrow> Some t
      | SetIndexBuffer t b off \<Rightarrow> Some t
      | SetVertexBuffer t i b off \<Rightarrow> Some t
      | _ \<Rightarrow> None)"

text \<open>The call that destroys the texture held in a field, if it holds one.\<close>

definition old_texture :: "handle option \<Rightarrow> gpu_call list" where
  "old_texture t = (case t of Some h \<Rightarrow> [Texture_destroy h] | None \<Rightarrow> [])"


subsection \<open>Example engines and arguments\<close>

text \<open>
  Engines built on an 800 by 600 canvas with the swap-chain format \<^verbatim>\<open>rgba8unorm\<close>,
  antialiasing and compute support off: \<open>idle_engine\<close> after \<^verbatim>\<open>init\<close>; \<open>drawing_engine\<close> after
  \<^verbatim>\<open>init\<close>, \<^verbatim>\<open>beginFrame\<close> and \<^verbatim>\<open>clear\<close>, its main render pass open; \<open>recording_engine\<close> after
  a further \<^verbatim>\<open>startRecordBundle\<close>. \<open>antialiased_engine\<close> is built with antialiasing on, for
  \<^verbatim>\<open>bgra8unorm\<close>, initialised at 800 by 600, and its canvas then resized to 400 by 300.
\<close>

definition plain_options :: IWebGPUEngineOptions where
  "plain_options = \<lparr>swapChainFormat = Some ''rgba8unorm'', antialiasing = False, supportCompute = False\<rparr>"

definition antialiased_options :: IWebGPUEngineOptions where
  "antialiased_options =
     \<lparr>swapChainFormat = Some ''bgra8unorm'', antialiasing = True, supportCompute = False\<rparr>"

definition idle_engine :: engine where
  "idle_engine =
     \<lparr>canvas_width = 800, canvas_height = 600,
      device = Some 0, swapChain = Some 1,
      pipelines = Map.empty, computePipelines = Map.empty,
      mainPassSampleCount = 1,
      mainTexture = None, depthTexture = Some 4,
      mainColorAttachments =
        Some [\<lparr>attachment = 3, resolveTarget = None, loadValue = LoadColor [0, 0, 0, 1],
               storeOp = StoreOp_Store\<rparr>],
      mainTextureExtends = Some \<lparr>extent_width = 800, extent_height = 600, extent_depth = 1\<rparr>,
      mainDepthAttachment =
        Some \<lparr>depth_attachment = 5, depthLoadValue = LoadNumber clearDepthValue,
              depthStoreOp = StoreOp_Store, stencilLoadValue = LoadNumber clearStencilValue,
              stencilStoreOp = StoreOp_Store\<rparr>,
      uploadEncoder = None, renderEncoder = None, computeEncoder = None,
      commandBuffers = [None, None, None],
      currentRenderPass = None, currentComputePass = None, bundleEncoder = None,
      tempBuffers = [],
      options = plain_options, next_handle = 6,
      trace =
        [RequestDevice 0,
         ConfigureSwapChain 1 (Some ''rgba8unorm'')
           {TextureUsage_OutputAttachment, TextureUsage_CopySrc},
         GetCurrentTexture 1 2, Texture_createView 2 3,
         CreateTexture 4
           \<lparr>tex_size = \<lparr>extent_width = 800, extent_height = 600, extent_depth = 1\<rparr>,
            arrayLayerCount = 1, mipLevelCount = 1, tex_sampleCount = 1,
            dimension = TextureDimension_E2d,
            tex_format = TextureFormat_Depth24PlusStencil8,
            tex_usage = {TextureUsage_OutputAttachment}\<rparr>,
         Texture_createView 4 5]\<rparr>"

definition drawing_engine :: engine where
  "drawing_engine =
     \<lparr>canvas_width = 800, canvas_height = 600,
      device = Some 0, swapChain = Some 1,
      pipelines = Map.empty, computePipelines = Map.empty,
      mainPassSampleCount = 1,
      mainTexture = None, depthTexture = Some 4,
      mainColorAttachments =
        Some [\<lparr>attachment = 10, resolveTarget = None, loadValue = LoadColor [0, 0, 0, 1],
               storeOp = StoreOp_Store\<rparr>],
      mainTextureExtends = Some \<lparr>extent_width = 800, extent_height = 600, extent_depth = 1\<rparr>,
      mainDepthAttachment =
        Some \<lparr>depth_attachment = 5, depthLoadValue = LoadNumber clearDepthValue,
              depthStoreOp = StoreOp_Store, stencilLoadValue = LoadOp_Load,
              stencilStoreOp = StoreOp_Store\<rparr>,
      uploadEncoder = Some 6, renderEncoder = Some 7, computeEncoder = Some 8,
      commandBuffers = [None, None, None],
      currentRenderPass = Some 11, currentComputePass = None, bundleEncoder = None,
      tempBuffers = [],
      options = plain_options, next_handle = 12,
      trace =
        [RequestDevice 0,
         ConfigureSwapChain 1 (Some ''rgba8unorm'')
           {TextureUsage_OutputAttachment, TextureUsage_CopySrc},
         GetCurrentTexture 1 2, Texture_createView 2 3,
         CreateTexture 4
           \<lparr>tex_size = \<lparr>extent_width = 800, extent_height = 600, extent_depth = 1\<rparr>,
            arrayLayerCount = 1, mipLevelCount = 1, tex_sampleCount = 1,
            dimension = TextureDimension_E2d,
            tex_format = TextureFormat_Depth24PlusStencil8,
            tex_usage = {TextureUsage_OutputAttachment}\<rparr>,
         Texture_createView 4 5,
         CreateCommandEncoder 6 ''upload'', CreateCommandEncoder 7 ''render'',
         CreateCommandEncoder 8 ''compute'',
         GetCurrentTexture 1 9, Texture_createView 9 10,
         BeginRenderPass 7 11
           [\<lparr>attachment = 10, resolveTarget = None, loadValue = LoadColor [0, 0, 0, 1],
             storeOp = StoreOp_Store\<rparr>]
           (Some \<lparr>depth_attachment = 5, depthLoadValue = LoadNumber clearDepthValue,
                  depthStoreOp = StoreOp_Store, stencilLoadValue = LoadOp_Load,
                  stencilStoreOp = StoreOp_Store\<rparr>)]\<rparr>"

definition recording_engine :: engine where
  "recording_engine = step Op_startRecordBundle drawing_engine"

definition antialiased_engine :: engine where
  "antialiased_engine =
     \<lparr>canvas_width = 400, canvas_height = 300,
      device = Some 0, swapChain = Some 1,
      pipelines = Map.empty, computePipelines = Map.empty,
      mainPassSampleCount = 4,
      mainTexture = Some 2, depthTexture = Some 4,
      mainColorAttachments =
        Some [\<lparr>attachment = 3, resolveTarget = None, loadValue = LoadColor [0, 0, 0, 1],
               storeOp = StoreOp_Store\<rparr>],
      mainTextureExtends = Some \<lparr>extent_width = 800, extent_height = 600, extent_depth = 1\<rparr>,
      mainDepthAttachment =
        Some \<lparr>depth_attachment = 5, depthLoadValue = LoadNumber clearDepthValue,
              depthStoreOp = StoreOp_Store, stencilLoadValue = LoadNumber clearStencilValue,
              stencilStoreOp = StoreOp_Store\<rparr>,
      uploadEncoder = None, renderEncoder = None, computeEncoder = None,
      commandBuffers = [None, None, None],
      currentRenderPass = None, currentComputePass = None, bundleEncoder = None,
      tempBuffers = [],
      options = antialiased_options, next_handle = 6,
      trace =
        [RequestDevice 0,
         ConfigureSwapChain 1 (Some ''bgra8unorm'')
           {TextureUsage_OutputAttachment, TextureUsage_CopySrc},
         CreateTexture 2
           \<lparr>tex_size = \<lparr>extent_width = 800, extent_height = 600, extent_depth = 1\<rparr>,
            arrayLayerCount = 1, mipLevelCount = 1, tex_sampleCount = 4,
            dimension = TextureDimension_E2d,
            tex_format = TextureFormat_BGRA8Unorm,
            tex_usage = {TextureUsage_OutputAttachment}\<rparr>,
         Texture_createView 2 3,
         CreateTexture 4
           \<lparr>tex_size = \<lparr>extent_width = 800, extent_height = 600, extent_depth = 1\<rparr>,
            arrayLayerCount = 1, mipLevelCount = 1, tex_sampleCount = 4,
            dimension = TextureDimension_E2d,
            tex_format = TextureFormat_Depth24PlusStencil8,
            tex_usage = {TextureUsage_OutputAttachment}\<rparr>,
         Texture_createView 4 5]\<rparr>"

definition main_stage :: GPUProgrammableStageDescriptor where
  "main_stage = \<lparr>stage_module = 100, entryPoint = ''main''\<rparr>"

definition vertex_only_request :: render_pipeline_request where
  "vertex_only_request =
     \<lparr>primitiveTopology = None, rasterizationState = None, depthStencilState = None,
      colorStates = None, vertexStage = Some main_stage, fragmentStage = None,
      vertexState = None, layout = None\<rparr>"

definition complete_request :: render_pipeline_request where
  "complete_request =
     \<lparr>primitiveTopology = None, rasterizationState = None, depthStencilState = None,
      colorStates = None, vertexStage = Some main_stage, fragmentStage = Some main_stage,
      vertexState = None, layout = None\<rparr>"

definition compute_descriptor_a :: GPUComputePipelineDescriptor where
  "compute_descriptor_a = \<lparr>cd_layout = None, computeStage = main_stage\<rparr>"

definition compute_descriptor_b :: GPUComputePipelineDescriptor where
  "compute_descriptor_b = \<lparr>cd_layout = Some 50, computeStage = main_stage\<rparr>"


definition four_byte_view :: ArrayBufferView where
  "four_byte_view = \<lparr>view_buffer = [1, 2, 3, 4], byteOffset = 0, byteLength = 4\<rparr>"

definition some_vertex_inputs :: vertex_inputs where
  "some_vertex_inputs =
     \<lparr>indexBuffer = Some 30, indexOffset = 0, vertexStartSlot = 0,
      vertexBuffers = [Some 31, None, Some 32], vertexOffsets = [0, 0]\<rparr>"

definition upload_ops :: "op list" where
  "upload_ops = [Op_setSubData 40 0 four_byte_view, Op_dispatch 1]"


section \<open>Invariant of the reachable engines\<close>

lemmas ok_unfold = engine_ok_def render_pass_protocol_def pass_step_def call_def create_def Let_def

lemma ok_new: "engine_ok (new_WebGPUEngine w h opts)"
  by (simp add: ok_unfold new_WebGPUEngine_def)

lemma ok_and_then:
  "engine_ok (snd m) \<Longrightarrow> (\<And>v s. engine_ok s \<Longrightarrow> engine_ok (snd (f v s))) \<Longrightarrow> engine_ok (snd (and_then m f))"
  by (cases m) (auto simp: and_then_def split: sum.splits)

lemma ok_endRenderPass: "engine_ok s \<Longrightarrow> engine_ok (endRenderPass s)"
  by (auto simp: ok_unfold endRenderPass_def split: option.splits)

lemma ok_endComputePass: "engine_ok s \<Longrightarrow> engine_ok (endComputePass s)"
  by (auto simp: ok_unfold endComputePass_def split: option.splits)

lemma ok_startComputePass: "engine_ok s \<Longrightarrow> engine_ok (snd (startComputePass s))"
  by (auto simp: ok_unfold startComputePass_def endComputePass_def split: option.splits)

lemma ok_startMainRenderPass: "engine_ok s \<Longrightarrow> engine_ok (snd (startMainRenderPass s))"
proof -
  assume "engine_ok s"
  then have ok: "engine_ok (if currentRenderPass s \<noteq> None then endRenderPass s else s)"
    by (simp add: ok_endRenderPass)
  define s1 where "s1 = (if currentRenderPass s \<noteq> None then endRenderPass s else s)"
  have none: "currentRenderPass s1 = None"
    by (simp add: s1_def endRenderPass_def call_def split: option.splits)
  have "engine_ok (snd (case mainColorAttachments s1 of
           None \<Rightarrow> (Inl TypeError, s1)
         | Some [] \<Rightarrow> (Inl TypeError, s1)
         | Some (a # as) \<Rightarrow>
             (case swapChain s1 of
                None \<Rightarrow> (Inl TypeError, s1)
              | Some sc \<Rightarrow>
                  (case create (GetCurrentTexture sc) s1 of
                     (t, s2) \<Rightarrow>
                  (case create (Texture_createView t) s2 of
                     (v, s3) \<Rightarrow>
                       (let a' = (if antialiasing (options s3)
                                  then a\<lparr>resolveTarget := Some v\<rparr>
                                  else a\<lparr>attachment := v\<rparr>);
                            s4 = s3\<lparr>mainColorAttachments := Some (a' # as)\<rparr>
                        in case renderEncoder s4 of
                             None \<Rightarrow> (Inl TypeError, s4)
                           | Some r \<Rightarrow>
                               (case create (\<lambda>h. BeginRenderPass r h (a' # as)
                                                (mainDepthAttachment s4)) s4 of
                                  (p, s5) \<Rightarrow> (Inr (), s5\<lparr>currentRenderPass := Some p\<rparr>))))))))"
    using ok[folded s1_def] none
    by (auto simp: ok_unfold split: option.splits list.splits)
  then show ?thesis
    unfolding startMainRenderPass_def s1_def by (simp only: Let_def)
qed

lemma ok_initColorAttachment: "engine_ok s \<Longrightarrow> engine_ok (snd (initColorAttachment ext s))"
  by (auto simp: ok_unfold initColorAttachment_def split: option.splits)

lemma ok_initDepthAttachment: "engine_ok s \<Longrightarrow> engine_ok (snd (initDepthAttachment ext s))"
  by (auto simp: ok_unfold initDepthAttachment_def split: option.splits)

lemma ok_initMainAttachments: "engine_ok s \<Longrightarrow> engine_ok (snd (initMainAttachments s))"
proof -
  assume "engine_ok s"
  then have "engine_ok (s\<lparr>mainTextureExtends := Some \<lparr>extent_width = canvas_width s,
      extent_height = canvas_height s, extent_depth = 1\<rparr>\<rparr>)"
    by (auto simp: engine_ok_def)
  then show ?thesis
    unfolding initMainAttachments_def Let_def
    by (intro ok_and_then ok_initColorAttachment ok_initDepthAttachment)
qed


lemma ok_init: "engine_ok s \<Longrightarrow> engine_ok (snd (init adapter s))"
proof (cases adapter)
  case True
  assume ok: "engine_ok s"
  have "engine_ok (snd (create (\<lambda>h. ConfigureSwapChain h (swapChainFormat (options s))
            {TextureUsage_OutputAttachment, TextureUsage_CopySrc})
          ((snd (create RequestDevice s))\<lparr>device := Some (next_handle s)\<rparr>))\<lparr>swapChain := Some (Suc (next_handle s))\<rparr>)"
    using ok by (auto simp: ok_unfold)
  then have "engine_ok (snd (initMainAttachments ((snd (create (\<lambda>h. ConfigureSwapChain h (swapChainFormat (options s))
            {TextureUsage_OutputAttachment, TextureUsage_CopySrc})
          ((snd (create RequestDevice s))\<lparr>device := Some (next_handle s)\<rparr>)))\<lparr>swapChain := Some (Suc (next_handle s))\<rparr>)))"
    by (rule ok_initMainAttachments)
  then show ?thesis using True by (simp add: init_def create_def)
next
  case False
  then show "engine_ok s \<Longrightarrow> ?thesis" by (simp add: init_def)
qed

lemma ok_dispose: "engine_ok s \<Longrightarrow> engine_ok (dispose s)"
  by (auto simp: ok_unfold dispose_def split: option.splits)

lemma ok_clear: "engine_ok s \<Longrightarrow> engine_ok (snd (clear color b d st s))"
proof -
  assume ok: "engine_ok s"
  have tail: "\<And>s2. engine_ok s2 \<Longrightarrow> engine_ok (snd (and_then (startMainRenderPass s2)
                        (\<lambda>_ s3. if supportCompute (options s3) then startComputePass s3
                                else (Inr (), s3))))"
    by (rule ok_and_then) (auto intro: ok_startMainRenderPass ok_startComputePass)
  show ?thesis
  proof (cases "mainColorAttachments s")
    case None
    then show ?thesis using ok by (simp add: clear_def)
  next
    case (Some cs)
    show ?thesis
    proof (cases cs)
      case Nil
      then show ?thesis using ok Some by (simp add: clear_def)
    next
      case (Cons a as)
      show ?thesis
      proof (cases "mainDepthAttachment s")
        case None
        then show ?thesis using ok Some Cons by (auto simp: clear_def Let_def engine_ok_def)
      next
        case (Some dd)
        have "engine_ok (s\<lparr>mainColorAttachments :=
                       Some (a\<lparr>loadValue := (if b then LoadColor color
                                              else LoadOp_Load)\<rparr> # as), mainDepthAttachment :=
                       Some (dd\<lparr>depthLoadValue :=
                                 (if d then LoadNumber clearDepthValue else LoadOp_Load),
                               stencilLoadValue :=
                                 (if st then LoadNumber clearStencilValue
                                  else LoadOp_Load)\<rparr>)\<rparr>)"
          using ok by (auto simp: engine_ok_def)
        from tail[OF this] show ?thesis
          using \<open>mainColorAttachments s = Some cs\<close> Cons Some by (simp add: clear_def Let_def)
      qed
    qed
  qed
qed

lemma ok_beginFrame: "engine_ok s \<Longrightarrow> engine_ok (snd (beginFrame s))"
  by (auto simp: ok_unfold beginFrame_def split: option.splits)

lemma ok_finishInto:
  "engine_ok s \<Longrightarrow> i < 3 \<Longrightarrow> engine_ok (snd (finishInto i e s))"
  by (auto simp: ok_unfold finishInto_def js_set_def split: option.splits)

lemma pass_step_destroys: "foldl pass_step st (map Buffer_destroy bs) = st"
  by (induction bs arbitrary: st) (auto simp: pass_step_def split: option.splits)

lemma ok_endFrame: "engine_ok s \<Longrightarrow> engine_ok (snd (endFrame s))"
proof -
  assume ok: "engine_ok s"
  have 1: "engine_ok (if supportCompute (options (endRenderPass s))
       then endComputePass (endRenderPass s) else endRenderPass s)"
    using ok by (simp add: ok_endRenderPass ok_endComputePass)
  have last: "\<And>s5. engine_ok s5 \<Longrightarrow> engine_ok (snd (case device s5 of
             None \<Rightarrow> (Inl TypeError, s5)
           | Some d \<Rightarrow>
               (let s6 = call (Queue_submit (commandBuffers s5)) s5;
                    s7 = s6\<lparr>trace := trace s6 @ map Buffer_destroy (tempBuffers s6)\<rparr>
                in (Inr (), s7\<lparr>tempBuffers := []\<rparr>))))"
    by (auto simp: ok_unfold pass_step_destroys split: option.splits)
  show ?thesis
    unfolding endFrame_def Let_def
    by (intro ok_and_then ok_finishInto 1 last[unfolded Let_def]) simp_all
qed

lemma ok_startRecordBundle: "engine_ok s \<Longrightarrow> engine_ok (snd (startRecordBundle s))"
  by (auto simp: ok_unfold startRecordBundle_def split: option.splits)

lemma ok_stopRecordBundle: "engine_ok s \<Longrightarrow> engine_ok (snd (stopRecordBundle s))"
  by (auto simp: ok_unfold stopRecordBundle_def split: option.splits)

lemma ok_ensure_pass:
  "engine_ok s \<Longrightarrow>
   engine_ok (snd (if currentRenderPass s = None then startMainRenderPass s else (Inr (), s)))"
  by (simp add: ok_startMainRenderPass)

lemma ok_executeBundles: "engine_ok s \<Longrightarrow> engine_ok (snd (executeBundles bs s))"
  unfolding executeBundles_def
  by (rule ok_and_then, erule ok_ensure_pass) (auto simp: ok_unfold split: option.splits)

lemma ok_enableScissor: "engine_ok s \<Longrightarrow> engine_ok (snd (enableScissor x y w h s))"
  unfolding enableScissor_def
  by (rule ok_and_then, erule ok_ensure_pass) (auto simp: ok_unfold split: option.splits)

lemma ok_disableScissor: "engine_ok s \<Longrightarrow> engine_ok (snd (disableScissor s))"
  unfolding disableScissor_def
  by (rule ok_and_then, erule ok_ensure_pass) (auto simp: ok_unfold split: option.splits)

lemma ok_getRenderPipeline: "engine_ok s \<Longrightarrow> engine_ok (snd (getRenderPipeline n d s))"
  by (auto simp: ok_unfold getRenderPipeline_def split: option.splits)

lemma ok_setRenderPipeline: "engine_ok s \<Longrightarrow> engine_ok (snd (setRenderPipeline n d s))"
  unfolding setRenderPipeline_def Let_def
  by (rule ok_and_then, erule ok_getRenderPipeline) (auto simp: ok_unfold split: option.splits)

lemma ok_drawElementsType: "engine_ok s \<Longrightarrow> engine_ok (snd (drawElementsType n d a b c s))"
  unfolding drawElementsType_def Let_def
  by (rule ok_and_then, erule ok_setRenderPipeline) (auto simp: ok_unfold split: option.splits)

lemma ok_drawArraysType: "engine_ok s \<Longrightarrow> engine_ok (snd (drawArraysType n d a b c s))"
  unfolding drawArraysType_def Let_def
  by (rule ok_and_then, erule ok_setRenderPipeline) (auto simp: ok_unfold split: option.splits)

lemma ok_setComputePipeline: "engine_ok s \<Longrightarrow> engine_ok (snd (setComputePipeline n d s))"
  unfolding setComputePipeline_def
  by (rule ok_and_then) (auto simp: ok_unfold split: option.splits)

lemma ok_setSubData: "engine_ok s \<Longrightarrow> engine_ok (snd (setSubData b off v s))"
  by (auto simp: ok_unfold setSubData_def split: option.splits)

lemma ok_createBuffer: "engine_ok s \<Longrightarrow> engine_ok (snd (createBuffer v f s))"
proof (cases "device s")
  case None
  then show "engine_ok s \<Longrightarrow> ?thesis" by (simp add: createBuffer_def)
next
  case (Some d)
  assume "engine_ok s"
  then have "engine_ok (snd (create (\<lambda>h. CreateBuffer h (byteLength v + byteLength v mod 4) f) s))"
    by (auto simp: ok_unfold)
  then have "engine_ok (snd (and_then (setSubData (next_handle s) 0 v
        (snd (create (\<lambda>h. CreateBuffer h (byteLength v + byteLength v mod 4) f) s)))
        (\<lambda>_ s2. (Inr (next_handle s), s2))))"
    by (intro ok_and_then ok_setSubData) simp_all
  then show ?thesis using Some by (simp add: createBuffer_def Let_def create_def)
qed

lemma ok_setBindGroups: "engine_ok s \<Longrightarrow> engine_ok (snd (setBindGroups t i gs s))"
proof (induction gs arbitrary: i s)
  case Nil
  then show ?case by simp
next
  case (Cons g gs)
  show ?case
  proof (cases t)
    case None
    then show ?thesis using Cons.prems by simp
  next
    case (Some p)
    have "engine_ok (call (SetBindGroup p i g) s)"
      using Cons.prems by (auto simp: ok_unfold)
    from Cons.IH[OF this] show ?thesis using Some by simp
  qed
qed

lemma ok_setVertexBuffers:
  "engine_ok s \<Longrightarrow> engine_ok (snd (setVertexBuffers t start offs i bs s))"
proof (induction t start offs i bs s rule: setVertexBuffers.induct)
  case (1 pass start offsets i s)
  then show ?case by simp
next
  case (2 pass start offsets i bs s)
  then show ?case by simp
next
  case (3 pass start offsets i buf bs s)
  show ?case
  proof (cases pass)
    case None
    then show ?thesis using "3.prems" by simp
  next
    case (Some p)
    have "engine_ok (call (SetVertexBuffer p (start + i) buf
                     (if i < length offsets then Some (offsets ! i) else None)) s)"
      using "3.prems" by (auto simp: ok_unfold)
    from "3.IH"[OF Some this] show ?thesis using Some by simp
  qed
qed

lemma ok_bindVertexInputs: "engine_ok s \<Longrightarrow> engine_ok (snd (bindVertexInputs vi s))"
proof -
  assume ok: "engine_ok s"
  have "engine_ok (snd (case indexBuffer vi of
              None \<Rightarrow> (Inr (), s)
            | Some ib \<Rightarrow>
                (case renderPassTarget s of
                   None \<Rightarrow> (Inl TypeError, s)
                 | Some t \<Rightarrow> (Inr (), call (SetIndexBuffer t ib (indexOffset vi)) s))))"
    using ok by (auto simp: ok_unfold split: option.splits)
  then show ?thesis
    unfolding bindVertexInputs_def Let_def
    by (rule ok_and_then) (rule ok_setVertexBuffers)
qed

lemma ok_dispatch: "engine_ok s \<Longrightarrow> engine_ok (snd (dispatch n s))"
  by (auto simp: ok_unfold dispatch_def split: option.splits)

lemma ok_step: "engine_ok s \<Longrightarrow> engine_ok (step x s)"
proof (cases x)
  case (Op_resizeCanvas w h)
  then show "engine_ok s \<Longrightarrow> ?thesis" by (auto simp: engine_ok_def)
qed (simp_all add: ok_init ok_beginFrame ok_endFrame ok_startRecordBundle ok_stopRecordBundle
      ok_executeBundles ok_enableScissor ok_disableScissor setSize_def ok_initMainAttachments
      ok_clear ok_dispose ok_drawElementsType ok_drawArraysType createVertexBuffer_def
      createUniformBuffer_def ok_createBuffer setRenderBindGroups_def ok_setBindGroups
      setComputeBindGroups_def ok_setComputePipeline ok_setSubData ok_bindVertexInputs
      ok_dispatch split: option.splits)

lemma reachable_ok: "reachable s \<Longrightarrow> engine_ok s"
  by (induction rule: reachable.induct) (simp_all add: ok_new ok_step)


section \<open>The example engines are reachable\<close>

lemmas run_defs = new_WebGPUEngine_def init_def initMainAttachments_def initColorAttachment_def
  initDepthAttachment_def and_then_def create_def call_def beginFrame_def clear_def
  startMainRenderPass_def startComputePass_def endRenderPass_def endComputePass_def Let_def
  plain_options_def

lemma idle_engine_step:
  "step (Op_init True) (new_WebGPUEngine 800 600 plain_options) = idle_engine"
  by (simp add: idle_engine_def run_defs numeral_3_eq_3)

lemma idle_engine_reachable: "reachable idle_engine"
  using reachable_step [OF reachable_new, of "Op_init True" 800 600 plain_options]
  by (simp only: idle_engine_step)

lemma drawing_engine_run:
  "run [Op_init True, Op_beginFrame, Op_clear [0, 0, 0, 1] True True False]
     (new_WebGPUEngine 800 600 plain_options) = drawing_engine"
  by (simp add: drawing_engine_def run_defs numeral_3_eq_3)

lemma reachable_run: "reachable s \<Longrightarrow> reachable (run xs s)"
  by (induction xs arbitrary: s) (simp_all add: reachable_step)

lemma drawing_engine_reachable: "reachable drawing_engine"
  using reachable_run [OF reachable_new, of _ 800 600 plain_options]
  by (simp only: drawing_engine_run [symmetric])

lemma recording_engine_fields:
  "bundleEncoder recording_engine = Some 12"
  "currentRenderPass recording_engine = Some 11"
  "trace recording_engine = trace drawing_engine @
     [CreateRenderBundleEncoder 12
        \<lparr>colorFormats = [TextureFormat_BGRA8Unorm],
         depthStencilFormat = TextureFormat_Depth24PlusStencil8,
         bundle_sampleCount = 1\<rparr>]"
  "pipelines recording_engine = Map.empty"
  "device recording_engine = Some 0"
  "next_handle recording_engine = 13"
  by (simp_all add: recording_engine_def startRecordBundle_def create_def drawing_engine_def)

lemma antialiased_engine_run:
  "run [Op_init True, Op_resizeCanvas 400 300] (new_WebGPUEngine 800 600 antialiased_options) =
     antialiased_engine"
  by (simp add: antialiased_engine_def new_WebGPUEngine_def init_def initMainAttachments_def
      initColorAttachment_def initDepthAttachment_def and_then_def create_def call_def Let_def
      antialiased_options_def defaultSampleCount_def numeral_3_eq_3)


section \<open>What the operations record\<close>

subsection \<open>No operation but \<^verbatim>\<open>endFrame\<close> destroys a buffer\<close>

lemma quiet_refl: "quiet s s"
  by (simp add: quiet_def)

lemma quiet_trans:
  assumes "quiet s s1" and "quiet s1 s2"
  shows "quiet s s2"
proof -
  from assms(1) obtain evs1 bs1 where 1: "trace s1 = trace s @ evs1"
      "\<forall>b. Buffer_destroy b \<notin> set evs1" "tempBuffers s1 = tempBuffers s @ bs1"
      "uploadEncoder s \<noteq> None \<longrightarrow> uploadEncoder s1 \<noteq> None"
    unfolding quiet_def by blast
  from assms(2) obtain evs2 bs2 where 2: "trace s2 = trace s1 @ evs2"
      "\<forall>b. Buffer_destroy b \<notin> set evs2" "tempBuffers s2 = tempBuffers s1 @ bs2"
      "uploadEncoder s1 \<noteq> None \<longrightarrow> uploadEncoder s2 \<noteq> None"
    unfolding quiet_def by blast
  have "trace s2 = trace s @ (evs1 @ evs2)" "\<forall>b. Buffer_destroy b \<notin> set (evs1 @ evs2)"
      "tempBuffers s2 = tempBuffers s @ (bs1 @ bs2)"
    using 1 2 by simp_all
  then show ?thesis
    unfolding quiet_def using 1(4) 2(4) by blast
qed

lemma quiet_and_then:
  "quiet s (snd m) \<Longrightarrow> (\<And>v s1. quiet s1 (snd (f v s1))) \<Longrightarrow> quiet s (snd (and_then m f))"
  by (cases m) (auto simp: and_then_def split: sum.splits intro: quiet_trans)

lemmas quiet_unfold = quiet_def call_def create_def Let_def

lemma quiet_endRenderPass: "quiet s (endRenderPass s)"
  by (auto simp: quiet_unfold endRenderPass_def split: option.splits)

lemma quiet_endComputePass: "quiet s (endComputePass s)"
  by (auto simp: quiet_unfold endComputePass_def split: option.splits)

lemma quiet_startComputePass: "quiet s (snd (startComputePass s))"
  by (auto simp: quiet_unfold startComputePass_def endComputePass_def split: option.splits)

lemma quiet_startMainRenderPass: "quiet s (snd (startMainRenderPass s))"
  by (auto simp: quiet_unfold startMainRenderPass_def endRenderPass_def
      split: option.splits list.splits)

lemma quiet_initColorAttachment: "quiet s (snd (initColorAttachment ext s))"
  by (auto simp: quiet_unfold initColorAttachment_def split: option.splits)

lemma quiet_initDepthAttachment: "quiet s (snd (initDepthAttachment ext s))"
  by (auto simp: quiet_unfold initDepthAttachment_def split: option.splits)

lemma quiet_initMainAttachments: "quiet s (snd (initMainAttachments s))"
proof -
  have "quiet s (s\<lparr>mainTextureExtends := Some \<lparr>extent_width = canvas_width s,
      extent_height = canvas_height s, extent_depth = 1\<rparr>\<rparr>)"
    by (simp add: quiet_def)
  then have "quiet s (snd (initColorAttachment \<lparr>extent_width = canvas_width s,
      extent_height = canvas_height s, extent_depth = 1\<rparr> (s\<lparr>mainTextureExtends := Some \<lparr>extent_width = canvas_width s,
      extent_height = canvas_height s, extent_depth = 1\<rparr>\<rparr>)))"
    by (rule quiet_trans) (rule quiet_initColorAttachment)
  then show ?thesis
    unfolding initMainAttachments_def Let_def
    by (rule quiet_and_then) (rule quiet_initDepthAttachment)
qed

lemma quiet_init: "quiet s (snd (init adapter s))"
proof (cases adapter)
  case True
  have "quiet s ((snd (create (\<lambda>h. ConfigureSwapChain h (swapChainFormat (options s))
            {TextureUsage_OutputAttachment, TextureUsage_CopySrc})
          ((snd (create RequestDevice s))\<lparr>device := Some (next_handle s)\<rparr>)))\<lparr>swapChain := Some (Suc (next_handle s))\<rparr>)"
    by (auto simp: quiet_unfold)
  then have "quiet s (snd (initMainAttachments ((snd (create (\<lambda>h. ConfigureSwapChain h (swapChainFormat (options s))
            {TextureUsage_OutputAttachment, TextureUsage_CopySrc})
          ((snd (create RequestDevice s))\<lparr>device := Some (next_handle s)\<rparr>)))\<lparr>swapChain := Some (Suc (next_handle s))\<rparr>)))"
    by (rule quiet_trans) (rule quiet_initMainAttachments)
  then show ?thesis using True by (simp add: init_def create_def)
next
  case False
  then show ?thesis by (simp add: init_def quiet_refl)
qed

lemma quiet_clear: "quiet s (snd (clear color b d st s))"
proof -
  have tail: "\<And>s2. quiet s2 (snd (and_then (startMainRenderPass s2)
                        (\<lambda>_ s3. if supportCompute (options s3) then startComputePass s3
                                else (Inr (), s3))))"
    by (rule quiet_and_then) (auto intro: quiet_startMainRenderPass quiet_startComputePass quiet_refl)
  show ?thesis
  proof (cases "mainColorAttachments s")
    case None
    then show ?thesis by (simp add: clear_def quiet_refl)
  next
    case (Some cs)
    show ?thesis
    proof (cases cs)
      case Nil
      then show ?thesis using Some by (simp add: clear_def quiet_refl)
    next
      case (Cons a as)
      show ?thesis
      proof (cases "mainDepthAttachment s")
        case None
        then show ?thesis using Some Cons by (auto simp: clear_def Let_def quiet_def)
      next
        case (Some dd)
        have "quiet s (s\<lparr>mainColorAttachments :=
                       Some (a\<lparr>loadValue := (if b then LoadColor color
                                              else LoadOp_Load)\<rparr> # as), mainDepthAttachment :=
                       Some (dd\<lparr>depthLoadValue :=
                                 (if d then LoadNumber clearDepthValue else LoadOp_Load),
                               stencilLoadValue :=
                                 (if st then LoadNumber clearStencilValue
                                  else LoadOp_Load)\<rparr>)\<rparr>)"
          by (auto simp: quiet_def)
        from quiet_trans [OF this tail] show ?thesis
          using \<open>mainColorAttachments s = Some cs\<close> Cons Some by (simp add: clear_def Let_def)
      qed
    qed
  qed
qed

lemma quiet_dispose: "quiet s (dispose s)"
  by (auto simp: quiet_unfold dispose_def split: option.splits)

lemma quiet_beginFrame: "quiet s (snd (beginFrame s))"
  by (auto simp: quiet_unfold beginFrame_def split: option.splits)

lemma quiet_startRecordBundle: "quiet s (snd (startRecordBundle s))"
  by (auto simp: quiet_unfold startRecordBundle_def split: option.splits)

lemma quiet_stopRecordBundle: "quiet s (snd (stopRecordBundle s))"
  by (auto simp: quiet_unfold stopRecordBundle_def split: option.splits)

lemma quiet_ensure_pass:
  "quiet s (snd (if currentRenderPass s = None then startMainRenderPass s else (Inr (), s)))"
  by (simp add: quiet_startMainRenderPass quiet_refl)

lemma quiet_executeBundles: "quiet s (snd (executeBundles bs s))"
  unfolding executeBundles_def
  by (rule quiet_and_then, rule quiet_ensure_pass) (auto simp: quiet_unfold split: option.splits)

lemma quiet_enableScissor: "quiet s (snd (enableScissor x y w h s))"
  unfolding enableScissor_def
  by (rule quiet_and_then, rule quiet_ensure_pass) (auto simp: quiet_unfold split: option.splits)

lemma quiet_disableScissor: "quiet s (snd (disableScissor s))"
  unfolding disableScissor_def
  by (rule quiet_and_then, rule quiet_ensure_pass) (auto simp: quiet_unfold split: option.splits)

lemma quiet_getRenderPipeline: "quiet s (snd (getRenderPipeline n d s))"
  by (auto simp: quiet_unfold getRenderPipeline_def split: option.splits)

lemma quiet_setRenderPipeline: "quiet s (snd (setRenderPipeline n d s))"
  unfolding setRenderPipeline_def Let_def
  by (rule quiet_and_then, rule quiet_getRenderPipeline) (auto simp: quiet_unfold split: option.splits)

lemma quiet_drawElementsType: "quiet s (snd (drawElementsType n d a b c s))"
  unfolding drawElementsType_def Let_def
  by (rule quiet_and_then, rule quiet_setRenderPipeline) (auto simp: quiet_unfold split: option.splits)

lemma quiet_drawArraysType: "quiet s (snd (drawArraysType n d a b c s))"
  unfolding drawArraysType_def Let_def
  by (rule quiet_and_then, rule quiet_setRenderPipeline) (auto simp: quiet_unfold split: option.splits)

lemma quiet_setComputePipeline: "quiet s (snd (setComputePipeline n d s))"
  unfolding setComputePipeline_def
  by (rule quiet_and_then) (auto simp: quiet_unfold split: option.splits)

lemma quiet_setSubData: "quiet s (snd (setSubData b off v s))"
  by (auto simp: quiet_unfold setSubData_def split: option.splits)

lemma quiet_createBuffer: "quiet s (snd (createBuffer v f s))"
proof (cases "device s")
  case None
  then show ?thesis by (simp add: createBuffer_def quiet_refl)
next
  case (Some d)
  have "quiet s (snd (create (\<lambda>h. CreateBuffer h (byteLength v + byteLength v mod 4) f) s))"
    by (auto simp: quiet_unfold)
  then have "quiet s (snd (and_then (setSubData (next_handle s) 0 v
        (snd (create (\<lambda>h. CreateBuffer h (byteLength v + byteLength v mod 4) f) s)))
        (\<lambda>_ s2. (Inr (next_handle s), s2))))"
    by (rule quiet_and_then [OF quiet_trans [OF _ quiet_setSubData]]) (simp add: quiet_refl)
  then show ?thesis using Some by (simp add: createBuffer_def Let_def create_def)
qed

lemma quiet_setBindGroups: "quiet s (snd (setBindGroups t i gs s))"
proof (induction gs arbitrary: i s)
  case Nil
  then show ?case by (simp add: quiet_refl)
next
  case (Cons g gs)
  show ?case
  proof (cases t)
    case None
    then show ?thesis by (simp add: quiet_refl)
  next
    case (Some p)
    have "quiet s (call (SetBindGroup p i g) s)"
      by (auto simp: quiet_unfold)
    from quiet_trans [OF this Cons.IH] show ?thesis using Some by simp
  qed
qed

lemma quiet_setVertexBuffers: "quiet s (snd (setVertexBuffers t start offs i bs s))"
proof (induction t start offs i bs s rule: setVertexBuffers.induct)
  case (1 pass start offsets i s)
  then show ?case by (simp add: quiet_refl)
next
  case (2 pass start offsets i bs s)
  then show ?case by simp
next
  case (3 pass start offsets i buf bs s)
  show ?case
  proof (cases pass)
    case None
    then show ?thesis by (simp add: quiet_refl)
  next
    case (Some p)
    have "quiet s (call (SetVertexBuffer p (start + i) buf
                     (if i < length offsets then Some (offsets ! i) else None)) s)"
      by (auto simp: quiet_unfold)
    from quiet_trans [OF this "3.IH" [OF Some]] show ?thesis using Some by simp
  qed
qed

lemma quiet_bindVertexInputs: "quiet s (snd (bindVertexInputs vi s))"
proof -
  have "quiet s (snd (case indexBuffer vi of
              None \<Rightarrow> (Inr (), s)
            | Some ib \<Rightarrow>
                (case renderPassTarget s of
                   None \<Rightarrow> (Inl TypeError, s)
                 | Some t \<Rightarrow> (Inr (), call (SetIndexBuffer t ib (indexOffset vi)) s))))"
    by (auto simp: quiet_unfold split: option.splits)
  then show ?thesis
    unfolding bindVertexInputs_def Let_def
    by (rule quiet_and_then) (rule quiet_setVertexBuffers)
qed

lemma quiet_dispatch: "quiet s (snd (dispatch n s))"
  by (auto simp: quiet_unfold dispatch_def split: option.splits)

lemma quiet_step: "x \<noteq> Op_endFrame \<Longrightarrow> quiet s (step x s)"
proof (cases x)
  case (Op_resizeCanvas w h)
  then show ?thesis by (auto simp: quiet_def)
qed (simp_all add: quiet_init quiet_beginFrame quiet_startRecordBundle quiet_stopRecordBundle
      quiet_executeBundles quiet_enableScissor quiet_disableScissor setSize_def
      quiet_initMainAttachments quiet_clear quiet_dispose quiet_drawElementsType
      quiet_drawArraysType createVertexBuffer_def createUniformBuffer_def quiet_createBuffer
      setRenderBindGroups_def quiet_setBindGroups setComputeBindGroups_def
      quiet_setComputePipeline quiet_setSubData quiet_bindVertexInputs quiet_dispatch
      quiet_refl split: option.splits)

lemma quiet_run: "Op_endFrame \<notin> set ops \<Longrightarrow> quiet s (run ops s)"
proof (induction ops arbitrary: s)
  case Nil
  then show ?case by (simp add: quiet_refl)
next
  case (Cons x xs)
  from Cons.prems have "x \<noteq> Op_endFrame" and "Op_endFrame \<notin> set xs"
    by auto
  then have "quiet s (step x s)" and "quiet (step x s) (run xs (step x s))"
    by (simp_all add: quiet_step Cons.IH)
  then show ?case
    using quiet_trans by simp
qed

subsection \<open>The end of a frame\<close>

lemma endFrame_throws:
  "uploadEncoder s = None \<or> renderEncoder s = None \<or> computeEncoder s = None \<or> device s = None
   \<Longrightarrow> fst (endFrame s) = Inl TypeError"
  by (auto simp: endFrame_def finishInto_def and_then_def create_def call_def Let_def
      endRenderPass_def endComputePass_def split: option.splits)

lemma endFrame_effect:
  assumes "uploadEncoder s = Some u" and "renderEncoder s = Some r"
    and "computeEncoder s = Some c" and "device s \<noteq> None"
  shows "fst (endFrame s) = Inr ()"
    and "trace (snd (endFrame s)) =
           trace s @ closing_calls s @
             [Encoder_finish u (next_handle s), Encoder_finish r (Suc (next_handle s)),
              Encoder_finish c (Suc (Suc (next_handle s))),
              Queue_submit (js_set (js_set (js_set (commandBuffers s) 0 (next_handle s)) 1
                 (Suc (next_handle s))) 2 (Suc (Suc (next_handle s))))] @
             map Buffer_destroy (tempBuffers s)"
    and "commandBuffers (snd (endFrame s)) =
           js_set (js_set (js_set (commandBuffers s) 0 (next_handle s)) 1
                 (Suc (next_handle s))) 2 (Suc (Suc (next_handle s)))"
    and "tempBuffers (snd (endFrame s)) = []"
proof -
  define s2 where "s2 = (if supportCompute (options (endRenderPass s))
       then endComputePass (endRenderPass s) else endRenderPass s)"
  have s2: "uploadEncoder s2 = Some u" "renderEncoder s2 = Some r" "computeEncoder s2 = Some c"
      "device s2 \<noteq> None" "next_handle s2 = next_handle s" "commandBuffers s2 = commandBuffers s"
      "tempBuffers s2 = tempBuffers s" "trace s2 = trace s @ closing_calls s"
    using assms
    by (auto simp: s2_def endRenderPass_def endComputePass_def call_def closing_calls_def
        split: option.splits)
  have e: "endFrame s =
     and_then (finishInto 0 (uploadEncoder s2) s2) (\<lambda>_ s3.
         and_then (finishInto 1 (renderEncoder s3) s3) (\<lambda>_ s4.
         and_then (finishInto 2 (computeEncoder s4) s4) (\<lambda>_ s5.
           case device s5 of
             None \<Rightarrow> (Inl TypeError, s5)
           | Some d \<Rightarrow>
               (let s6 = call (Queue_submit (commandBuffers s5)) s5;
                    s7 = s6\<lparr>trace := trace s6 @ map Buffer_destroy (tempBuffers s6)\<rparr>
                in (Inr (), s7\<lparr>tempBuffers := []\<rparr>)))))"
    by (simp add: endFrame_def s2_def Let_def)
  show "fst (endFrame s) = Inr ()"
    unfolding e using s2
    by (auto simp: finishInto_def and_then_def create_def call_def Let_def)
  show "trace (snd (endFrame s)) =
           trace s @ closing_calls s @
             [Encoder_finish u (next_handle s), Encoder_finish r (Suc (next_handle s)),
              Encoder_finish c (Suc (Suc (next_handle s))),
              Queue_submit (js_set (js_set (js_set (commandBuffers s) 0 (next_handle s)) 1
                 (Suc (next_handle s))) 2 (Suc (Suc (next_handle s))))] @
             map Buffer_destroy (tempBuffers s)"
    unfolding e using s2
    by (auto simp: finishInto_def and_then_def create_def call_def Let_def)
  show "commandBuffers (snd (endFrame s)) =
           js_set (js_set (js_set (commandBuffers s) 0 (next_handle s)) 1
                 (Suc (next_handle s))) 2 (Suc (Suc (next_handle s)))"
    unfolding e using s2
    by (auto simp: finishInto_def and_then_def create_def call_def Let_def)
  show "tempBuffers (snd (endFrame s)) = []"
    unfolding e using s2
    by (auto simp: finishInto_def and_then_def create_def call_def Let_def)
qed

lemma closing_calls_no_destroy: "Buffer_destroy b \<notin> set (closing_calls s)"
proof -
  have 1: "Buffer_destroy b \<notin> set (case currentRenderPass s of Some p \<Rightarrow> [RenderPass_endPass p] | None \<Rightarrow> [])"
    by (simp split: option.splits)
  have 2: "Buffer_destroy b \<notin> set (if supportCompute (options s)
      then (case currentComputePass s of Some q \<Rightarrow> [ComputePass_endPass q] | None \<Rightarrow> [])
      else [])"
    by (cases "supportCompute (options s)"; cases "currentComputePass s") simp_all
  show ?thesis
    unfolding closing_calls_def set_append using 1 2 by blast
qed

lemma endFrame_keeps_uploadEncoder: "uploadEncoder (snd (endFrame s)) = uploadEncoder s"
proof -
  define s2 where "s2 = (if supportCompute (options (endRenderPass s))
       then endComputePass (endRenderPass s) else endRenderPass s)"
  have s2: "uploadEncoder s2 = uploadEncoder s"
    by (auto simp: s2_def endRenderPass_def endComputePass_def call_def split: option.splits)
  have e: "endFrame s =
     and_then (finishInto 0 (uploadEncoder s2) s2) (\<lambda>_ s3.
         and_then (finishInto 1 (renderEncoder s3) s3) (\<lambda>_ s4.
         and_then (finishInto 2 (computeEncoder s4) s4) (\<lambda>_ s5.
           case device s5 of
             None \<Rightarrow> (Inl TypeError, s5)
           | Some d \<Rightarrow>
               (let s6 = call (Queue_submit (commandBuffers s5)) s5;
                    s7 = s6\<lparr>trace := trace s6 @ map Buffer_destroy (tempBuffers s6)\<rparr>
                in (Inr (), s7\<lparr>tempBuffers := []\<rparr>)))))"
    by (simp add: endFrame_def s2_def Let_def)
  have f: "\<And>i e s. uploadEncoder (snd (finishInto i e s)) = uploadEncoder s"
    by (auto simp: finishInto_def create_def split: option.splits)
  have k: "\<And>m f. (\<And>v s1. uploadEncoder (snd (f v s1)) = uploadEncoder s1) \<Longrightarrow>
      uploadEncoder (snd (and_then m f)) = uploadEncoder (snd m)" for m :: "unit outcome"
    by (cases m) (auto simp: and_then_def split: sum.splits)
  have l: "\<And>s5. uploadEncoder (snd (case device s5 of
             None \<Rightarrow> (Inl TypeError, s5)
           | Some d \<Rightarrow>
               (let s6 = call (Queue_submit (commandBuffers s5)) s5;
                    s7 = s6\<lparr>trace := trace s6 @ map Buffer_destroy (tempBuffers s6)\<rparr>
                in (Inr (), s7\<lparr>tempBuffers := []\<rparr>)))) = uploadEncoder s5"
    by (auto simp: call_def Let_def split: option.splits)
  show ?thesis
    unfolding e by (simp add: k f l s2)
qed

lemma uploadEncoder_step: "uploadEncoder s \<noteq> None \<Longrightarrow> uploadEncoder (step x s) \<noteq> None"
proof (cases "x = Op_endFrame")
  case True
  then show "uploadEncoder s \<noteq> None \<Longrightarrow> ?thesis"
    by (simp add: endFrame_keeps_uploadEncoder)
next
  case False
  from quiet_step [OF this, of s] show "uploadEncoder s \<noteq> None \<Longrightarrow> ?thesis"
    by (simp add: quiet_def)
qed

lemma uploadEncoder_run: "uploadEncoder s \<noteq> None \<Longrightarrow> uploadEncoder (run ops s) \<noteq> None"
proof (induction ops arbitrary: s)
  case Nil
  then show ?case by simp
next
  case (Cons x xs)
  from Cons.prems have "uploadEncoder (step x s) \<noteq> None"
    by (rule uploadEncoder_step)
  then have "uploadEncoder (run xs (step x s)) \<noteq> None"
    by (rule Cons.IH)
  then show ?case by simp
qed

lemma beginFrame_opens: "fst (beginFrame s) = Inr () \<Longrightarrow> uploadEncoder (snd (beginFrame s)) \<noteq> None"
  by (auto simp: beginFrame_def create_def split: option.splits)

lemma setSubData_registers:
  "fst (setSubData dest off v s) = Inr () \<Longrightarrow>
   tempBuffers (snd (setSubData dest off v s)) = tempBuffers s @ [next_handle s] \<and>
   CreateBufferMapped (next_handle s) (byteLength v) {BufferUsage_CopySrc} \<in>
     set (trace (snd (setSubData dest off v s)))"
  by (auto simp: setSubData_def create_def call_def Let_def split: option.splits if_splits)

subsection \<open>Attachments, bind groups, vertex buffers and draws\<close>

lemma initColorAttachment_effect:
  "\<exists>evs. trace (snd (initColorAttachment ext s)) = trace s @ evs \<and>
         (\<forall>h d. CreateTexture h d \<in> set evs \<longrightarrow> tex_size d = ext) \<and>
         (fst (initColorAttachment ext s) = Inr () \<and> antialiasing (options s) \<longrightarrow>
            (\<exists>h d. mainTexture (snd (initColorAttachment ext s)) = Some h \<and>
                   CreateTexture h d \<in> set evs)) \<and>
         mainTextureExtends (snd (initColorAttachment ext s)) = mainTextureExtends s"
  by (auto simp: initColorAttachment_def create_def call_def Let_def split: option.splits)

lemma initDepthAttachment_effect:
  "\<exists>evs. trace (snd (initDepthAttachment ext s)) = trace s @ evs \<and>
         (\<forall>h d. CreateTexture h d \<in> set evs \<longrightarrow> tex_size d = ext) \<and>
         (fst (initDepthAttachment ext s) = Inr () \<longrightarrow>
            (\<exists>h d. depthTexture (snd (initDepthAttachment ext s)) = Some h \<and>
                   CreateTexture h d \<in> set evs)) \<and>
         mainTextureExtends (snd (initDepthAttachment ext s)) = mainTextureExtends s \<and>
         mainTexture (snd (initDepthAttachment ext s)) = mainTexture s"
  by (auto simp: initDepthAttachment_def create_def call_def Let_def split: option.splits)

lemma initMainAttachments_effect:
  assumes "fst (initMainAttachments s) = Inr ()"
  defines "ext \<equiv> \<lparr>extent_width = canvas_width s, extent_height = canvas_height s,
                    extent_depth = 1\<rparr>"
  shows "\<exists>evs. trace (snd (initMainAttachments s)) = trace s @ evs \<and>
           (\<forall>h d. CreateTexture h d \<in> set evs \<longrightarrow> tex_size d = ext) \<and>
           (\<exists>h d. depthTexture (snd (initMainAttachments s)) = Some h \<and>
                  CreateTexture h d \<in> set evs) \<and>
           (antialiasing (options s) \<longrightarrow>
              (\<exists>h d. mainTexture (snd (initMainAttachments s)) = Some h \<and>
                     CreateTexture h d \<in> set evs)) \<and>
           mainTextureExtends (snd (initMainAttachments s)) = Some ext"
proof -
  define s0 where "s0 = s\<lparr>mainTextureExtends := Some ext\<rparr>"
  obtain r1 s1 where c: "initColorAttachment ext s0 = (r1, s1)"
    by (cases "initColorAttachment ext s0")
  have eq: "initMainAttachments s = and_then (r1, s1) (\<lambda>_. initDepthAttachment ext)"
    unfolding initMainAttachments_def Let_def
    by (fold ext_def, fold s0_def, simp only: c)
  from assms(1) eq have r1: "r1 = Inr ()"
    by (cases r1) (simp_all add: and_then_def)
  with eq have eq2: "initMainAttachments s = initDepthAttachment ext s1"
    by (simp add: and_then_def)
  from initColorAttachment_effect [of ext s0] c r1
  obtain evs1 where 1: "trace s1 = trace s @ evs1"
      "\<forall>h d. CreateTexture h d \<in> set evs1 \<longrightarrow> tex_size d = ext"
      "antialiasing (options s) \<longrightarrow> (\<exists>h d. mainTexture s1 = Some h \<and> CreateTexture h d \<in> set evs1)"
      "mainTextureExtends s1 = Some ext"
    by (auto simp: s0_def)
  from initDepthAttachment_effect [of ext s1] assms(1) eq2
  obtain evs2 where 2: "trace (snd (initDepthAttachment ext s1)) = trace s1 @ evs2"
      "\<forall>h d. CreateTexture h d \<in> set evs2 \<longrightarrow> tex_size d = ext"
      "\<exists>h d. depthTexture (snd (initDepthAttachment ext s1)) = Some h \<and> CreateTexture h d \<in> set evs2"
      "mainTextureExtends (snd (initDepthAttachment ext s1)) = mainTextureExtends s1"
      "mainTexture (snd (initDepthAttachment ext s1)) = mainTexture s1"
    by auto
  show ?thesis
    unfolding eq2
    by (rule exI [of _ "evs1 @ evs2"]) (use 1 2 in auto)
qed

lemma initColorAttachment_antialiased:
  assumes "antialiasing (options s)" and "device s \<noteq> None"
  shows "initColorAttachment ext s =
     (Inr (),
      s\<lparr>next_handle := Suc (Suc (next_handle s)),
        trace := trace s @ old_texture (mainTexture s) @
          [CreateTexture (next_handle s)
             \<lparr>tex_size = ext, arrayLayerCount = 1, mipLevelCount = 1,
              tex_sampleCount = mainPassSampleCount s,
              dimension = TextureDimension_E2d,
              tex_format = TextureFormat_BGRA8Unorm,
              tex_usage = {TextureUsage_OutputAttachment}\<rparr>,
           Texture_createView (next_handle s) (Suc (next_handle s))],
        mainTexture := Some (next_handle s),
        mainColorAttachments :=
          Some [\<lparr>attachment = Suc (next_handle s), resolveTarget = None,
                 loadValue = LoadColor [0, 0, 0, 1], storeOp = StoreOp_Store\<rparr>]\<rparr>)"
  using assms
  by (cases "mainTexture s")
     (auto simp: initColorAttachment_def create_def call_def Let_def old_texture_def)

lemma initColorAttachment_swapChain:
  assumes "\<not> antialiasing (options s)" and "swapChain s = Some sc"
  shows "initColorAttachment ext s =
     (Inr (),
      s\<lparr>next_handle := Suc (Suc (next_handle s)),
        trace := trace s @
          [GetCurrentTexture sc (next_handle s),
           Texture_createView (next_handle s) (Suc (next_handle s))],
        mainColorAttachments :=
          Some [\<lparr>attachment = Suc (next_handle s), resolveTarget = None,
                 loadValue = LoadColor [0, 0, 0, 1], storeOp = StoreOp_Store\<rparr>]\<rparr>)"
  using assms by (simp add: initColorAttachment_def create_def)

lemma initDepthAttachment_device:
  assumes "device s \<noteq> None"
  shows "initDepthAttachment ext s =
     (Inr (),
      s\<lparr>next_handle := Suc (Suc (next_handle s)),
        trace := trace s @ old_texture (depthTexture s) @
          [CreateTexture (next_handle s)
             \<lparr>tex_size = ext, arrayLayerCount = 1, mipLevelCount = 1,
              tex_sampleCount = mainPassSampleCount s,
              dimension = TextureDimension_E2d,
              tex_format = TextureFormat_Depth24PlusStencil8,
              tex_usage = {TextureUsage_OutputAttachment}\<rparr>,
           Texture_createView (next_handle s) (Suc (next_handle s))],
        depthTexture := Some (next_handle s),
        mainDepthAttachment :=
          Some \<lparr>depth_attachment = Suc (next_handle s),
                depthLoadValue = LoadNumber clearDepthValue,
                depthStoreOp = StoreOp_Store,
                stencilLoadValue = LoadNumber clearStencilValue,
                stencilStoreOp = StoreOp_Store\<rparr>\<rparr>)"
  using assms
  by (cases "depthTexture s")
     (auto simp: initDepthAttachment_def create_def call_def Let_def old_texture_def)

lemma initMainAttachments_antialiased:
  assumes "antialiasing (options s)" and "device s \<noteq> None"
  defines "ext \<equiv> \<lparr>extent_width = canvas_width s, extent_height = canvas_height s,
                    extent_depth = 1\<rparr>"
  shows "fst (initMainAttachments s) = Inr ()"
    and "trace (snd (initMainAttachments s)) =
           trace s @ old_texture (mainTexture s) @
             [CreateTexture (next_handle s)
                \<lparr>tex_size = ext, arrayLayerCount = 1, mipLevelCount = 1,
                 tex_sampleCount = mainPassSampleCount s,
                 dimension = TextureDimension_E2d,
                 tex_format = TextureFormat_BGRA8Unorm,
                 tex_usage = {TextureUsage_OutputAttachment}\<rparr>,
              Texture_createView (next_handle s) (Suc (next_handle s))] @
             old_texture (depthTexture s) @
             [CreateTexture (Suc (Suc (next_handle s)))
                \<lparr>tex_size = ext, arrayLayerCount = 1, mipLevelCount = 1,
                 tex_sampleCount = mainPassSampleCount s,
                 dimension = TextureDimension_E2d,
                 tex_format = TextureFormat_Depth24PlusStencil8,
                 tex_usage = {TextureUsage_OutputAttachment}\<rparr>,
              Texture_createView (Suc (Suc (next_handle s))) (Suc (Suc (Suc (next_handle s))))]"
    and "mainTexture (snd (initMainAttachments s)) = Some (next_handle s)"
    and "depthTexture (snd (initMainAttachments s)) = Some (Suc (Suc (next_handle s)))"
    and "mainTextureExtends (snd (initMainAttachments s)) = Some ext"
proof -
  define s0 where "s0 = s\<lparr>mainTextureExtends := Some ext\<rparr>"
  have a0: "antialiasing (options s0)" "device s0 \<noteq> None"
    using assms(1,2) by (simp_all add: s0_def)
  note c = initColorAttachment_antialiased [OF a0, of ext]
  define s1 where "s1 = snd (initColorAttachment ext s0)"
  have c': "initColorAttachment ext s0 = (Inr (), s1)"
    by (simp add: s1_def c)
  have s1: "next_handle s1 = Suc (Suc (next_handle s))"
      "trace s1 = trace s @ old_texture (mainTexture s) @
             [CreateTexture (next_handle s)
                \<lparr>tex_size = ext, arrayLayerCount = 1, mipLevelCount = 1,
                 tex_sampleCount = mainPassSampleCount s,
                 dimension = TextureDimension_E2d,
                 tex_format = TextureFormat_BGRA8Unorm,
                 tex_usage = {TextureUsage_OutputAttachment}\<rparr>,
              Texture_createView (next_handle s) (Suc (next_handle s))]"
      "mainTexture s1 = Some (next_handle s)" "depthTexture s1 = depthTexture s"
      "mainPassSampleCount s1 = mainPassSampleCount s" "mainTextureExtends s1 = Some ext"
    unfolding s1_def c by (simp_all add: s0_def)
  have d1: "device s1 \<noteq> None"
    using a0(2) unfolding s1_def c by simp
  note d = initDepthAttachment_device [OF d1, of ext]
  have e: "initMainAttachments s = initDepthAttachment ext s1"
    unfolding initMainAttachments_def Let_def
    by (fold ext_def, fold s0_def, simp only: c') (simp add: and_then_def)
  show "fst (initMainAttachments s) = Inr ()"
    by (simp add: e d)
  show "trace (snd (initMainAttachments s)) =
           trace s @ old_texture (mainTexture s) @
             [CreateTexture (next_handle s)
                \<lparr>tex_size = ext, arrayLayerCount = 1, mipLevelCount = 1,
                 tex_sampleCount = mainPassSampleCount s,
                 dimension = TextureDimension_E2d,
                 tex_format = TextureFormat_BGRA8Unorm,
                 tex_usage = {TextureUsage_OutputAttachment}\<rparr>,
              Texture_createView (next_handle s) (Suc (next_handle s))] @
             old_texture (depthTexture s) @
             [CreateTexture (Suc (Suc (next_handle s)))
                \<lparr>tex_size = ext, arrayLayerCount = 1, mipLevelCount = 1,
                 tex_sampleCount = mainPassSampleCount s,
                 dimension = TextureDimension_E2d,
                 tex_format = TextureFormat_Depth24PlusStencil8,
                 tex_usage = {TextureUsage_OutputAttachment}\<rparr>,
              Texture_createView (Suc (Suc (next_handle s))) (Suc (Suc (Suc (next_handle s))))]"
    by (simp add: e d s1)
  show "mainTexture (snd (initMainAttachments s)) = Some (next_handle s)"
    by (simp add: e d s1)
  show "depthTexture (snd (initMainAttachments s)) = Some (Suc (Suc (next_handle s)))"
    by (simp add: e d s1)
  show "mainTextureExtends (snd (initMainAttachments s)) = Some ext"
    by (simp add: e d s1)
qed

lemma initMainAttachments_swapChain:
  assumes "\<not> antialiasing (options s)" and "device s \<noteq> None" and "swapChain s = Some sc"
  defines "ext \<equiv> \<lparr>extent_width = canvas_width s, extent_height = canvas_height s,
                    extent_depth = 1\<rparr>"
  shows "fst (initMainAttachments s) = Inr ()"
    and "trace (snd (initMainAttachments s)) =
           trace s @
             [GetCurrentTexture sc (next_handle s),
              Texture_createView (next_handle s) (Suc (next_handle s))] @
             old_texture (depthTexture s) @
             [CreateTexture (Suc (Suc (next_handle s)))
                \<lparr>tex_size = ext, arrayLayerCount = 1, mipLevelCount = 1,
                 tex_sampleCount = mainPassSampleCount s,
                 dimension = TextureDimension_E2d,
                 tex_format = TextureFormat_Depth24PlusStencil8,
                 tex_usage = {TextureUsage_OutputAttachment}\<rparr>,
              Texture_createView (Suc (Suc (next_handle s))) (Suc (Suc (Suc (next_handle s))))]"
    and "mainTexture (snd (initMainAttachments s)) = mainTexture s"
    and "depthTexture (snd (initMainAttachments s)) = Some (Suc (Suc (next_handle s)))"
    and "mainTextureExtends (snd (initMainAttachments s)) = Some ext"
proof -
  define s0 where "s0 = s\<lparr>mainTextureExtends := Some ext\<rparr>"
  have a0: "\<not> antialiasing (options s0)" "swapChain s0 = Some sc"
    using assms(1,3) by (simp_all add: s0_def)
  note c = initColorAttachment_swapChain [OF a0, of ext]
  define s1 where "s1 = snd (initColorAttachment ext s0)"
  have c': "initColorAttachment ext s0 = (Inr (), s1)"
    by (simp add: s1_def c)
  have s1: "next_handle s1 = Suc (Suc (next_handle s))"
      "trace s1 = trace s @
             [GetCurrentTexture sc (next_handle s),
              Texture_createView (next_handle s) (Suc (next_handle s))]"
      "mainTexture s1 = mainTexture s" "depthTexture s1 = depthTexture s"
      "mainPassSampleCount s1 = mainPassSampleCount s" "mainTextureExtends s1 = Some ext"
    unfolding s1_def c by (simp_all add: s0_def)
  have d1: "device s1 \<noteq> None"
    using assms(2) unfolding s1_def c by (simp add: s0_def)
  note d = initDepthAttachment_device [OF d1, of ext]
  have e: "initMainAttachments s = initDepthAttachment ext s1"
    unfolding initMainAttachments_def Let_def
    by (fold ext_def, fold s0_def, simp only: c') (simp add: and_then_def)
  show "fst (initMainAttachments s) = Inr ()"
    by (simp add: e d)
  show "trace (snd (initMainAttachments s)) =
           trace s @
             [GetCurrentTexture sc (next_handle s),
              Texture_createView (next_handle s) (Suc (next_handle s))] @
             old_texture (depthTexture s) @
             [CreateTexture (Suc (Suc (next_handle s)))
                \<lparr>tex_size = ext, arrayLayerCount = 1, mipLevelCount = 1,
                 tex_sampleCount = mainPassSampleCount s,
                 dimension = TextureDimension_E2d,
                 tex_format = TextureFormat_Depth24PlusStencil8,
                 tex_usage = {TextureUsage_OutputAttachment}\<rparr>,
              Texture_createView (Suc (Suc (next_handle s))) (Suc (Suc (Suc (next_handle s))))]"
    by (simp add: e d s1)
  show "mainTexture (snd (initMainAttachments s)) = mainTexture s"
    by (simp add: e d s1)
  show "depthTexture (snd (initMainAttachments s)) = Some (Suc (Suc (next_handle s)))"
    by (simp add: e d s1)
  show "mainTextureExtends (snd (initMainAttachments s)) = Some ext"
    by (simp add: e d s1)
qed

lemma setSize_textures_at_canvas_size:
  assumes "fst (setSize w1 h1 s) = Inr ()"
  shows "let s' = snd (setSize w1 h1 s);
           ext = \<lparr>extent_width = canvas_width s, extent_height = canvas_height s,
                   extent_depth = 1\<rparr>;
           new = drop (length (trace s)) (trace s')
       in mainTextureExtends s' = Some ext \<and>
          (\<forall>h d. CreateTexture h d \<in> set new \<longrightarrow> tex_size d = ext) \<and>
          (\<exists>h d. depthTexture s' = Some h \<and> CreateTexture h d \<in> set new) \<and>
          (antialiasing (options s) \<longrightarrow>
             (\<exists>h d. mainTexture s' = Some h \<and> CreateTexture h d \<in> set new))"
proof -
  from assms have "fst (initMainAttachments s) = Inr ()"
    by (simp add: setSize_def)
  from initMainAttachments_effect [OF this]
  obtain evs where e: "trace (snd (initMainAttachments s)) = trace s @ evs"
    and rest: "(\<forall>h d. CreateTexture h d \<in> set evs \<longrightarrow> tex_size d =
                 \<lparr>extent_width = canvas_width s, extent_height = canvas_height s,
                  extent_depth = 1\<rparr>)"
      "(\<exists>h d. depthTexture (snd (initMainAttachments s)) = Some h \<and>
                  CreateTexture h d \<in> set evs)"
      "(antialiasing (options s) \<longrightarrow>
              (\<exists>h d. mainTexture (snd (initMainAttachments s)) = Some h \<and>
                     CreateTexture h d \<in> set evs))"
      "mainTextureExtends (snd (initMainAttachments s)) =
         Some \<lparr>extent_width = canvas_width s, extent_height = canvas_height s,
               extent_depth = 1\<rparr>"
    by blast
  have d: "drop (length (trace s)) (trace (snd (initMainAttachments s))) = evs"
    by (simp add: e)
  show ?thesis
    unfolding Let_def setSize_def d using rest by blast
qed

lemma get_property_update: "get_property (m(name \<mapsto> v)) name = Some (Own v)"
  by (simp add: get_property_def)

lemma setBindGroups_effect:
  "setBindGroups (Some t) i gs s =
     (Inr (), s\<lparr>trace := trace s @ map (\<lambda>(j, g). SetBindGroup t j g) (zip [i..<i + length gs] gs)\<rparr>)"
proof (induction gs arbitrary: i s)
  case Nil
  then show ?case by simp
next
  case (Cons g gs)
  have "[i..<i + length (g # gs)] = i # [Suc i..<i + length (g # gs)]"
    by (rule upt_conv_Cons) simp
  moreover have "i + length (g # gs) = Suc i + length gs"
    by simp
  ultimately have "[i..<i + length (g # gs)] = i # [Suc i..<Suc i + length gs]"
    by (simp only:)
  then show ?case
    by (simp only: setBindGroups.simps option.case Cons.IH zip_Cons_Cons list.map prod.case)
       (simp add: call_def)
qed

lemma setVertexBuffers_effect:
  "\<exists>evs. setVertexBuffers (Some t) start offs i bs s = (Inr (), s\<lparr>trace := trace s @ evs\<rparr>) \<and>
         (\<forall>e\<in>set evs. receiver e = Some t)"
proof (induction bs arbitrary: i s)
  case Nil
  have "setVertexBuffers (Some t) start offs i [] s = (Inr (), s\<lparr>trace := trace s @ []\<rparr>)"
    by simp
  then show ?case by (intro exI [of _ "[]"]) simp
next
  case (Cons b bs)
  show ?case
  proof (cases b)
    case None
    then show ?thesis using Cons.IH [of "Suc i" s] by simp
  next
    case (Some buf)
    define c where "c = SetVertexBuffer t (start + i) buf
                     (if i < length offs then Some (offs ! i) else None)"
    from Cons.IH [of "Suc i" "call c s"]
    obtain evs where e: "setVertexBuffers (Some t) start offs (Suc i) bs (call c s) =
        (Inr (), (call c s)\<lparr>trace := trace (call c s) @ evs\<rparr>)"
      and r: "\<forall>e\<in>set evs. receiver e = Some t"
      by blast
    have "setVertexBuffers (Some t) start offs i (b # bs) s =
        (Inr (), s\<lparr>trace := trace s @ (c # evs)\<rparr>)"
      using Some e by (simp add: c_def call_def)
    moreover have "\<forall>e\<in>set (c # evs). receiver e = Some t"
      using r by (simp add: c_def receiver_def)
    ultimately show ?thesis by blast
  qed
qed

lemma setRenderPipeline_effect:
  assumes "renderPassTarget s = Some t" and "device s \<noteq> None"
  shows "\<exists>pre. fst (setRenderPipeline name d s) = Inr () \<and>
           trace (snd (setRenderPipeline name d s)) = trace s @ pre \<and>
           (\<forall>e\<in>set pre. receiver e \<in> {None, Some t})"
  using assms
  by (auto simp: setRenderPipeline_def getRenderPipeline_def and_then_def create_def call_def
      receiver_def Let_def split: option.splits)

lemma draw_effect:
  assumes "renderPassTarget s = Some t" and "device s \<noteq> None"
  shows "fst (drawArraysType name d start count inst s) = Inr () \<and>
         (\<exists>pre. trace (snd (drawArraysType name d start count inst s)) =
                  trace s @ pre @ [Draw t count (case inst of None \<Rightarrow> 1 | Some n \<Rightarrow> n) start 0] \<and>
                (\<forall>e\<in>set pre. receiver e \<in> {None, Some t})) \<and>
         fst (drawElementsType name d start count inst s) = Inr () \<and>
         (\<exists>pre. trace (snd (drawElementsType name d start count inst s)) =
                  trace s @ pre @
                    [DrawIndexed t count (case inst of None \<Rightarrow> 1 | Some n \<Rightarrow> n) start 0 0] \<and>
                (\<forall>e\<in>set pre. receiver e \<in> {None, Some t}))"
proof -
  from setRenderPipeline_effect [OF assms, of name d]
  obtain pre where p: "fst (setRenderPipeline name d s) = Inr ()"
      "trace (snd (setRenderPipeline name d s)) = trace s @ pre"
      "\<forall>e\<in>set pre. receiver e \<in> {None, Some t}"
    by blast
  obtain s1 where s1: "setRenderPipeline name d s = (Inr (), s1)"
    using p(1) by (cases "setRenderPipeline name d s") auto
  have "trace s1 = trace s @ pre"
    using p(2) s1 by simp
  then show ?thesis
    using p(3) s1 assms(1)
    by (auto simp: drawArraysType_def drawElementsType_def and_then_def call_def)
qed


section \<open>The claims\<close>

text \<open>
  C1. In every frame, that is after a \<^verbatim>\<open>beginFrame\<close> that returned on a reachable engine and
  whatever calls followed it, \<^verbatim>\<open>endFrame\<close> returns, closes the open passes, finishes the
  upload, render and compute encoders in this order into three new command buffers, stores
  them at indices 0, 1 and 2 of \<open>commandBuffers\<close>, which then holds exactly these three, and
  submits that array in one \<^verbatim>\<open>submit\<close> call, before the staging buffers are destroyed. Nothing
  is assumed about what the three streams recorded.
\<close>

theorem endFrame_submits_three_command_buffers:
  assumes "reachable s0" and "fst (beginFrame s0) = Inr ()"
    and "s = run ops (snd (beginFrame s0))"
  shows "\<exists>u r c. uploadEncoder s = Some u \<and> renderEncoder s = Some r \<and>
           computeEncoder s = Some c \<and>
           fst (endFrame s) = Inr () \<and>
           commandBuffers (snd (endFrame s)) =
             [Some (next_handle s), Some (Suc (next_handle s)), Some (Suc (Suc (next_handle s)))] \<and>
           trace (snd (endFrame s)) =
             trace s @ closing_calls s @
               [Encoder_finish u (next_handle s), Encoder_finish r (Suc (next_handle s)),
                Encoder_finish c (Suc (Suc (next_handle s))),
                Queue_submit [Some (next_handle s), Some (Suc (next_handle s)),
                              Some (Suc (Suc (next_handle s)))]] @
               map Buffer_destroy (tempBuffers s)"
proof -
  have "reachable (step Op_beginFrame s0)"
    using assms(1) by (rule reachable_step)
  then have "reachable s"
    unfolding assms(3) by (simp add: reachable_run)
  then have ok: "engine_ok s"
    by (rule reachable_ok)
  have "uploadEncoder s \<noteq> None"
    unfolding assms(3) by (intro uploadEncoder_run beginFrame_opens assms(2))
  with ok obtain u r c where enc: "uploadEncoder s = Some u" "renderEncoder s = Some r"
      "computeEncoder s = Some c" and dev: "device s \<noteq> None"
    by (auto simp: engine_ok_def)
  from ok obtain x y z where cbs: "commandBuffers s = [x, y, z]"
    by (auto simp: engine_ok_def length_Suc_conv numeral_3_eq_3)
  have js: "js_set (js_set (js_set (commandBuffers s) 0 (next_handle s)) 1
                 (Suc (next_handle s))) 2 (Suc (Suc (next_handle s))) =
      [Some (next_handle s), Some (Suc (next_handle s)), Some (Suc (Suc (next_handle s)))]"
    by (simp add: cbs js_set_def)
  show ?thesis
    using endFrame_effect [OF enc dev] enc unfolding js by blast
qed

theorem endFrame_submits_three_command_buffers_witness:
  "reachable idle_engine \<and> fst (beginFrame idle_engine) = Inr () \<and>
   fst (endFrame (run [] (snd (beginFrame idle_engine)))) = Inr () \<and>
   commandBuffers (snd (endFrame (run [] (snd (beginFrame idle_engine))))) =
     [Some 9, Some 10, Some 11] \<and>
   trace (snd (endFrame (run [] (snd (beginFrame idle_engine))))) =
     trace idle_engine @
       [CreateCommandEncoder 6 ''upload'', CreateCommandEncoder 7 ''render'',
        CreateCommandEncoder 8 ''compute'',
        Encoder_finish 6 9, Encoder_finish 7 10, Encoder_finish 8 11,
        Queue_submit [Some 9, Some 10, Some 11]]"
proof -
  have b: "fst (beginFrame idle_engine) = Inr ()"
    by (simp add: beginFrame_def create_def idle_engine_def)
  have f: "uploadEncoder (snd (beginFrame idle_engine)) = Some 6"
      "renderEncoder (snd (beginFrame idle_engine)) = Some 7"
      "computeEncoder (snd (beginFrame idle_engine)) = Some 8"
      "next_handle (snd (beginFrame idle_engine)) = 9"
      "tempBuffers (snd (beginFrame idle_engine)) = []"
      "closing_calls (snd (beginFrame idle_engine)) = []"
      "trace (snd (beginFrame idle_engine)) = trace idle_engine @
         [CreateCommandEncoder 6 ''upload'', CreateCommandEncoder 7 ''render'',
          CreateCommandEncoder 8 ''compute'']"
    by (simp_all add: beginFrame_def create_def idle_engine_def closing_calls_def
        plain_options_def)
  from endFrame_submits_three_command_buffers [OF idle_engine_reachable b, of _ "[]"]
  show ?thesis
    using idle_engine_reachable b by (simp add: f)
qed

text \<open>
  C2, as amended. Whatever the read \<^verbatim>\<open>this.pipelines[name]\<close> finds is returned, the descriptor
  being ignored and the engine left as it was: a cached pipeline, or, under a name that every
  object inherits from \<^verbatim>\<open>Object.prototype\<close> (such as \<^verbatim>\<open>toString\<close>), the inherited member. For a
  name under which the read finds nothing, on an engine with a device, and a first descriptor
  that has both a vertex and a fragment stage, \<^verbatim>\<open>getRenderPipeline(name, d1)\<close> and then
  \<^verbatim>\<open>getRenderPipeline(name, d2)\<close> return the pipeline compiled from \<open>d1\<close> both times, and the
  second call leaves the engine as it was. \<^verbatim>\<open>setComputePipeline\<close> compiles nothing and leaves
  the compute mapping as it was when the read finds something; when it finds nothing it
  compiles the first descriptor, and a second call with another descriptor keeps that
  pipeline and compiles nothing.
\<close>

theorem pipeline_memoization:
  "(get_property (pipelines s) name = Some v \<longrightarrow>
      getRenderPipeline name d s = (Inr (Some v), s)) \<and>
   (get_property (pipelines s) name = None \<and> vertexStage d1 = Some vs \<and>
    fragmentStage d1 = Some fs \<and> device s \<noteq> None \<longrightarrow>
      (let compiled = RenderPipeline (next_handle s) (renderPipelineDescriptor s d1 vs fs);
           s1 = snd (getRenderPipeline name d1 s)
       in fst (getRenderPipeline name d1 s) = Inr (Some (Own compiled)) \<and>
          pipelines s1 name = Some compiled \<and>
          getRenderPipeline name d2 s1 = (Inr (Some (Own compiled)), s1))) \<and>
   (get_property (computePipelines s) name = Some cv \<longrightarrow>
      fst (setComputePipeline name c s) = Inr () \<and>
      computePipelines (snd (setComputePipeline name c s)) = computePipelines s \<and>
      (\<forall>h c'. CreateComputePipeline h c' \<notin>
         set (drop (length (trace s)) (trace (snd (setComputePipeline name c s)))))) \<and>
   (get_property (computePipelines s) name = None \<and> device s \<noteq> None \<longrightarrow>
      (let compiled = ComputePipeline (next_handle s) c1;
           s1 = snd (setComputePipeline name c1 s);
           s2 = snd (setComputePipeline name c2 s1)
       in fst (setComputePipeline name c1 s) = Inr () \<and>
          computePipelines s1 name = Some compiled \<and>
          fst (setComputePipeline name c2 s1) = Inr () \<and>
          computePipelines s2 = computePipelines s1 \<and>
          (\<forall>h c'. CreateComputePipeline h c' \<notin> set (drop (length (trace s1)) (trace s2)))))"
proof -
  have 1: "get_property (pipelines s) name = Some v \<longrightarrow>
      getRenderPipeline name d s = (Inr (Some v), s)"
    by (simp add: getRenderPipeline_def)
  have 2: "get_property (pipelines s) name = None \<and> vertexStage d1 = Some vs \<and>
    fragmentStage d1 = Some fs \<and> device s \<noteq> None \<longrightarrow>
      (let compiled = RenderPipeline (next_handle s) (renderPipelineDescriptor s d1 vs fs);
           s1 = snd (getRenderPipeline name d1 s)
       in fst (getRenderPipeline name d1 s) = Inr (Some (Own compiled)) \<and>
          pipelines s1 name = Some compiled \<and>
          getRenderPipeline name d2 s1 = (Inr (Some (Own compiled)), s1))"
    by (auto simp: getRenderPipeline_def create_def Let_def get_property_update)
  have keep: "get_property (computePipelines t) name = Some cv \<Longrightarrow>
      fst (setComputePipeline name c t) = Inr () \<and>
      computePipelines (snd (setComputePipeline name c t)) = computePipelines t \<and>
      (\<forall>h c'. CreateComputePipeline h c' \<notin>
         set (drop (length (trace t)) (trace (snd (setComputePipeline name c t)))))"
    for t cv c
    by (cases "currentComputePass t")
       (simp_all add: setComputePipeline_def and_then_def call_def)
  have 3: "get_property (computePipelines s) name = Some cv \<longrightarrow>
      fst (setComputePipeline name c s) = Inr () \<and>
      computePipelines (snd (setComputePipeline name c s)) = computePipelines s \<and>
      (\<forall>h c'. CreateComputePipeline h c' \<notin>
         set (drop (length (trace s)) (trace (snd (setComputePipeline name c s)))))"
    using keep by blast
  have 4: "get_property (computePipelines s) name = None \<and> device s \<noteq> None \<longrightarrow>
      (let compiled = ComputePipeline (next_handle s) c1;
           s1 = snd (setComputePipeline name c1 s);
           s2 = snd (setComputePipeline name c2 s1)
       in fst (setComputePipeline name c1 s) = Inr () \<and>
          computePipelines s1 name = Some compiled \<and>
          fst (setComputePipeline name c2 s1) = Inr () \<and>
          computePipelines s2 = computePipelines s1 \<and>
          (\<forall>h c'. CreateComputePipeline h c' \<notin> set (drop (length (trace s1)) (trace s2))))"
  proof (rule impI)
    assume a: "get_property (computePipelines s) name = None \<and> device s \<noteq> None"
    define s1 where "s1 = snd (setComputePipeline name c1 s)"
    have f: "fst (setComputePipeline name c1 s) = Inr ()"
        "computePipelines s1 name = Some (ComputePipeline (next_handle s) c1)"
      using a unfolding s1_def
      by (cases "currentComputePass s";
          auto simp: setComputePipeline_def and_then_def create_def call_def)+
    then have "get_property (computePipelines s1) name =
        Some (Own (ComputePipeline (next_handle s) c1))"
      by (simp add: get_property_def)
    from keep [OF this, of c2] f show "let compiled = ComputePipeline (next_handle s) c1;
           s1 = snd (setComputePipeline name c1 s);
           s2 = snd (setComputePipeline name c2 s1)
       in fst (setComputePipeline name c1 s) = Inr () \<and>
          computePipelines s1 name = Some compiled \<and>
          fst (setComputePipeline name c2 s1) = Inr () \<and>
          computePipelines s2 = computePipelines s1 \<and>
          (\<forall>h c'. CreateComputePipeline h c' \<notin> set (drop (length (trace s1)) (trace s2)))"
      unfolding Let_def s1_def by blast
  qed
  from 1 2 3 4 show ?thesis
    by (intro conjI)
qed

theorem pipeline_memoization_witness:
  "get_property (pipelines drawing_engine) ''toString'' = Some (Inherited ''toString'') \<and>
   getRenderPipeline ''toString'' complete_request drawing_engine =
     (Inr (Some (Inherited ''toString'')), drawing_engine) \<and>
   get_property (pipelines drawing_engine) ''basic'' = None \<and>
   vertexStage complete_request = Some main_stage \<and>
   fragmentStage complete_request = Some main_stage \<and>
   device drawing_engine \<noteq> None \<and>
   fst (getRenderPipeline ''basic'' complete_request drawing_engine) =
     Inr (Some (Own (RenderPipeline 12
       (renderPipelineDescriptor drawing_engine complete_request main_stage main_stage)))) \<and>
   get_property
     (pipelines (snd (getRenderPipeline ''basic'' complete_request drawing_engine))) ''basic'' =
     Some (Own (RenderPipeline 12
       (renderPipelineDescriptor drawing_engine complete_request main_stage main_stage))) \<and>
   fst (getRenderPipeline ''basic'' vertex_only_request
          (snd (getRenderPipeline ''basic'' complete_request drawing_engine))) =
     Inr (Some (Own (RenderPipeline 12
       (renderPipelineDescriptor drawing_engine complete_request main_stage main_stage)))) \<and>
   get_property (computePipelines drawing_engine) ''sim'' = None \<and>
   computePipelines (snd (setComputePipeline ''sim'' compute_descriptor_a drawing_engine)) ''sim'' =
     Some (ComputePipeline 12 compute_descriptor_a) \<and>
   computePipelines
     (snd (setComputePipeline ''sim'' compute_descriptor_b
        (snd (setComputePipeline ''sim'' compute_descriptor_a drawing_engine)))) ''sim'' =
     Some (ComputePipeline 12 compute_descriptor_a)"
proof -
  define s1 where "s1 = snd (getRenderPipeline ''basic'' complete_request drawing_engine)"
  define c1 where "c1 = snd (setComputePipeline ''sim'' compute_descriptor_a drawing_engine)"
  have f: "get_property (pipelines drawing_engine) ''toString'' = Some (Inherited ''toString'')"
      "get_property (pipelines drawing_engine) ''basic'' = None"
      "vertexStage complete_request = Some main_stage"
      "fragmentStage complete_request = Some main_stage"
      "device drawing_engine \<noteq> None"
      "get_property (computePipelines drawing_engine) ''sim'' = None"
      "next_handle drawing_engine = 12"
      "device drawing_engine = Some 0"
      "currentComputePass drawing_engine = None"
    by (simp_all add: drawing_engine_def complete_request_def get_property_def
        Object_prototype_def)
  note i = pipeline_memoization [where s = drawing_engine and name = "''toString''"
      and v = "Inherited ''toString''" and d = complete_request]
  note a = pipeline_memoization [where s = drawing_engine and name = "''basic''"
      and ?d1.0 = complete_request and vs = main_stage and fs = main_stage
      and ?d2.0 = vertex_only_request]
  note b = pipeline_memoization [where s = drawing_engine and name = "''sim''"
      and ?c1.0 = compute_descriptor_a and ?c2.0 = compute_descriptor_b]
  from a f have g: "pipelines s1 ''basic'' = Some (RenderPipeline 12
       (renderPipelineDescriptor drawing_engine complete_request main_stage main_stage))"
    unfolding s1_def by (simp add: Let_def)
  then have g': "get_property (pipelines s1) ''basic'' = Some (Own (RenderPipeline 12
       (renderPipelineDescriptor drawing_engine complete_request main_stage main_stage)))"
    by (simp add: get_property_def)
  note c = pipeline_memoization [where s = s1 and name = "''basic''"
      and v = "Own (RenderPipeline 12
       (renderPipelineDescriptor drawing_engine complete_request main_stage main_stage))"
      and d = vertex_only_request]
  from b f have h: "computePipelines c1 ''sim'' = Some (ComputePipeline 12 compute_descriptor_a)"
    unfolding c1_def by (simp add: Let_def)
  then have h': "get_property (computePipelines c1) ''sim'' =
      Some (Own (ComputePipeline 12 compute_descriptor_a))"
    by (simp add: get_property_def)
  note d = pipeline_memoization [where s = c1 and name = "''sim''"
      and cv = "Own (ComputePipeline 12 compute_descriptor_a)" and c = compute_descriptor_b]
  from f g g' h h' i a b c d show ?thesis
    unfolding s1_def [symmetric] c1_def [symmetric] by (simp add: Let_def)
qed

text \<open>
  The claim as stated, for any two descriptors, fails when the first one lacks the fragment
  stage: the first call returns null and caches nothing, and the second call compiles the
  second descriptor.
\<close>

theorem pipeline_memoization_counterexample:
  "vertex_only_request \<noteq> complete_request \<and>
   get_property (pipelines drawing_engine) ''basic'' = None \<and>
   getRenderPipeline ''basic'' vertex_only_request drawing_engine = (Inr None, drawing_engine) \<and>
   fst (getRenderPipeline ''basic'' complete_request
          (snd (getRenderPipeline ''basic'' vertex_only_request drawing_engine))) =
     Inr (Some (Own (RenderPipeline 12
            (renderPipelineDescriptor drawing_engine complete_request main_stage main_stage))))"
  by (simp add: getRenderPipeline_def get_property_def Object_prototype_def
      vertex_only_request_def complete_request_def
      drawing_engine_def create_def Let_def renderPipelineDescriptor_def)

text \<open>
  C3. A successful \<^verbatim>\<open>setSubData\<close> appends the staging buffer it created to \<open>tempBuffers\<close>.
  Whatever calls other than \<^verbatim>\<open>endFrame\<close> are made, from any engine, none of the device calls
  they record destroys a buffer and \<open>tempBuffers\<close> only grows; and an \<^verbatim>\<open>endFrame\<close> that then
  returns records the \<^verbatim>\<open>submit\<close> call first, with no buffer destroyed before it, then one
  \<^verbatim>\<open>destroy\<close> for each registered staging buffer, in order, and leaves \<open>tempBuffers\<close> empty.
\<close>

theorem staging_buffers_destroyed_after_submission:
  "(fst (setSubData dest off v s) = Inr () \<longrightarrow>
      tempBuffers (snd (setSubData dest off v s)) = tempBuffers s @ [next_handle s] \<and>
      CreateBufferMapped (next_handle s) (byteLength v) {BufferUsage_CopySrc} \<in>
        set (trace (snd (setSubData dest off v s)))) \<and>
   (Op_endFrame \<notin> set ops \<and> fst (endFrame (run ops s)) = Inr () \<longrightarrow>
      (\<exists>evs bs pre cbs.
         trace (run ops s) = trace s @ evs \<and> (\<forall>b. Buffer_destroy b \<notin> set evs) \<and>
         tempBuffers (run ops s) = tempBuffers s @ bs \<and>
         trace (snd (endFrame (run ops s))) =
           trace (run ops s) @ pre @ [Queue_submit cbs] @
             map Buffer_destroy (tempBuffers s @ bs) \<and>
         (\<forall>b. Buffer_destroy b \<notin> set pre) \<and>
         tempBuffers (snd (endFrame (run ops s))) = []))"
proof -
  have 1: "fst (setSubData dest off v s) = Inr () \<longrightarrow>
      tempBuffers (snd (setSubData dest off v s)) = tempBuffers s @ [next_handle s] \<and>
      CreateBufferMapped (next_handle s) (byteLength v) {BufferUsage_CopySrc} \<in>
        set (trace (snd (setSubData dest off v s)))"
    using setSubData_registers [of dest off v s] by blast
  have 2: "Op_endFrame \<notin> set ops \<and> fst (endFrame (run ops s)) = Inr () \<longrightarrow>
      (\<exists>evs bs pre cbs.
         trace (run ops s) = trace s @ evs \<and> (\<forall>b. Buffer_destroy b \<notin> set evs) \<and>
         tempBuffers (run ops s) = tempBuffers s @ bs \<and>
         trace (snd (endFrame (run ops s))) =
           trace (run ops s) @ pre @ [Queue_submit cbs] @
             map Buffer_destroy (tempBuffers s @ bs) \<and>
         (\<forall>b. Buffer_destroy b \<notin> set pre) \<and>
         tempBuffers (snd (endFrame (run ops s))) = [])"
  proof (rule impI)
  assume a: "Op_endFrame \<notin> set ops \<and> fst (endFrame (run ops s)) = Inr ()"
  define s1 where "s1 = run ops s"
  from a have "quiet s s1"
    unfolding s1_def by (simp add: quiet_run)
  then obtain evs bs where q: "trace s1 = trace s @ evs" "\<forall>b. Buffer_destroy b \<notin> set evs"
      "tempBuffers s1 = tempBuffers s @ bs"
    unfolding quiet_def by blast
  from a have ok: "fst (endFrame s1) = Inr ()"
    by (simp add: s1_def)
  have "\<not> (uploadEncoder s1 = None \<or> renderEncoder s1 = None \<or> computeEncoder s1 = None \<or>
      device s1 = None)"
  proof
    assume "uploadEncoder s1 = None \<or> renderEncoder s1 = None \<or> computeEncoder s1 = None \<or>
      device s1 = None"
    then have "fst (endFrame s1) = Inl TypeError"
      by (rule endFrame_throws)
    with ok show False by simp
  qed
  then obtain u r c where enc: "uploadEncoder s1 = Some u" "renderEncoder s1 = Some r"
      "computeEncoder s1 = Some c" "device s1 \<noteq> None"
    by auto
    define pre where "pre = closing_calls s1 @
      [Encoder_finish u (next_handle s1), Encoder_finish r (Suc (next_handle s1)),
       Encoder_finish c (Suc (Suc (next_handle s1)))]"
  define cbs where "cbs = js_set (js_set (js_set (commandBuffers s1) 0 (next_handle s1)) 1
                 (Suc (next_handle s1))) 2 (Suc (Suc (next_handle s1)))"
  have t: "trace (snd (endFrame s1)) =
      trace s1 @ pre @ [Queue_submit cbs] @ map Buffer_destroy (tempBuffers s @ bs)"
    using endFrame_effect(2) [OF enc] by (simp add: pre_def cbs_def q(3))
  have p: "\<forall>b. Buffer_destroy b \<notin> set pre"
    by (simp add: pre_def closing_calls_no_destroy)
  have e: "tempBuffers (snd (endFrame s1)) = []"
    by (rule endFrame_effect(4) [OF enc])
  show "\<exists>evs bs pre cbs.
         trace (run ops s) = trace s @ evs \<and> (\<forall>b. Buffer_destroy b \<notin> set evs) \<and>
         tempBuffers (run ops s) = tempBuffers s @ bs \<and>
         trace (snd (endFrame (run ops s))) =
           trace (run ops s) @ pre @ [Queue_submit cbs] @
             map Buffer_destroy (tempBuffers s @ bs) \<and>
         (\<forall>b. Buffer_destroy b \<notin> set pre) \<and>
         tempBuffers (snd (endFrame (run ops s))) = []"
      using q t p e unfolding s1_def by blast
  qed
  from 1 2 show ?thesis ..
qed

theorem staging_buffers_destroyed_after_submission_witness:
  "fst (setSubData 40 0 four_byte_view drawing_engine) = Inr () \<and>
   tempBuffers (snd (setSubData 40 0 four_byte_view drawing_engine)) = [12] \<and>
   Op_endFrame \<notin> set upload_ops \<and>
   fst (endFrame (run upload_ops drawing_engine)) = Inr () \<and>
   trace (snd (endFrame (run upload_ops drawing_engine))) =
     trace drawing_engine @
       [CreateBufferMapped 12 4 {BufferUsage_CopySrc}, Mapped_set 12 [1, 2, 3, 4],
        Buffer_unmap 12, CopyBufferToBuffer 6 12 0 40 0 4,
        RenderPass_endPass 11,
        Encoder_finish 6 13, Encoder_finish 7 14, Encoder_finish 8 15,
        Queue_submit [Some 13, Some 14, Some 15],
        Buffer_destroy 12] \<and>
   tempBuffers (snd (endFrame (run upload_ops drawing_engine))) = []"
proof -
  have s: "setSubData 40 0 four_byte_view drawing_engine =
      (Inr (), drawing_engine\<lparr>next_handle := 13,
         trace := trace drawing_engine @
           [CreateBufferMapped 12 4 {BufferUsage_CopySrc}, Mapped_set 12 [1, 2, 3, 4],
            Buffer_unmap 12, CopyBufferToBuffer 6 12 0 40 0 4],
         tempBuffers := [12]\<rparr>)"
    by (simp add: setSubData_def create_def call_def Let_def four_byte_view_def
        drawing_engine_def)
  have r: "run upload_ops drawing_engine = drawing_engine\<lparr>next_handle := 13,
         trace := trace drawing_engine @
           [CreateBufferMapped 12 4 {BufferUsage_CopySrc}, Mapped_set 12 [1, 2, 3, 4],
            Buffer_unmap 12, CopyBufferToBuffer 6 12 0 40 0 4],
         tempBuffers := [12]\<rparr>"
    by (simp add: upload_ops_def s dispatch_def) (simp add: drawing_engine_def)
  have e: "fst (endFrame (run upload_ops drawing_engine)) = Inr ()"
    "trace (snd (endFrame (run upload_ops drawing_engine))) =
     trace drawing_engine @
       [CreateBufferMapped 12 4 {BufferUsage_CopySrc}, Mapped_set 12 [1, 2, 3, 4],
        Buffer_unmap 12, CopyBufferToBuffer 6 12 0 40 0 4,
        RenderPass_endPass 11,
        Encoder_finish 6 13, Encoder_finish 7 14, Encoder_finish 8 15,
        Queue_submit [Some 13, Some 14, Some 15],
        Buffer_destroy 12]"
    "tempBuffers (snd (endFrame (run upload_ops drawing_engine))) = []"
    unfolding r
    by (simp_all add: endFrame_def finishInto_def and_then_def create_def call_def Let_def
        endRenderPass_def endComputePass_def js_set_def drawing_engine_def plain_options_def)
  from staging_buffers_destroyed_after_submission
    [of 40 0 four_byte_view drawing_engine upload_ops]
  show ?thesis
    using s e by (simp add: upload_ops_def)
qed

text \<open>
  C4. On a reachable engine whose render pass \<open>p\<close> is open, \<^verbatim>\<open>startMainRenderPass\<close> returns
  without error. It first ends \<open>p\<close> with one \<^verbatim>\<open>endPass\<close> call, which clears
  \<open>currentRenderPass\<close>, then takes the current swap-chain texture and begins the new pass on
  the render encoder, which becomes \<open>currentRenderPass\<close>. The whole trace follows the render
  pass protocol: before the call the one open pass is \<open>p\<close>, after \<^verbatim>\<open>endPass\<close> none is open,
  after the call the one open pass is the new one.
\<close>

theorem startMainRenderPass_switches_pass:
  assumes "reachable s" and "currentRenderPass s = Some p"
  shows "\<exists>sc r atts.
           swapChain s = Some sc \<and> renderEncoder s = Some r \<and>
           currentRenderPass (endRenderPass s) = None \<and>
           trace (endRenderPass s) = trace s @ [RenderPass_endPass p] \<and>
           fst (startMainRenderPass s) = Inr () \<and>
           trace (snd (startMainRenderPass s)) =
             trace s @
               [RenderPass_endPass p,
                GetCurrentTexture sc (next_handle s),
                Texture_createView (next_handle s) (Suc (next_handle s)),
                BeginRenderPass r (Suc (Suc (next_handle s))) atts (mainDepthAttachment s)] \<and>
           currentRenderPass (snd (startMainRenderPass s)) = Some (Suc (Suc (next_handle s))) \<and>
           render_pass_protocol (trace s) = Some (Some p) \<and>
           render_pass_protocol (trace (endRenderPass s)) = Some None \<and>
           render_pass_protocol (trace (snd (startMainRenderPass s))) =
             Some (Some (Suc (Suc (next_handle s))))"
proof -
  have ok: "engine_ok s"
    using assms(1) by (rule reachable_ok)
  with assms(2) obtain sc r a as where f: "swapChain s = Some sc" "renderEncoder s = Some r"
      "mainColorAttachments s = Some (a # as)"
      and pr: "render_pass_protocol (trace s) = Some (Some p)"
    by (auto simp: engine_ok_def split: option.splits list.splits)
  define a' where "a' = (if antialiasing (options s)
      then a\<lparr>resolveTarget := Some (Suc (next_handle s))\<rparr>
      else a\<lparr>attachment := Suc (next_handle s)\<rparr>)"
  have e: "currentRenderPass (endRenderPass s) = None"
      "trace (endRenderPass s) = trace s @ [RenderPass_endPass p]"
    using assms(2) by (simp_all add: endRenderPass_def call_def)
  have st: "startMainRenderPass s =
      (Inr (), s\<lparr>next_handle := Suc (Suc (Suc (next_handle s))),
         trace := trace s @
               [RenderPass_endPass p,
                GetCurrentTexture sc (next_handle s),
                Texture_createView (next_handle s) (Suc (next_handle s)),
                BeginRenderPass r (Suc (Suc (next_handle s))) (a' # as) (mainDepthAttachment s)],
         mainColorAttachments := Some (a' # as),
         currentRenderPass := Some (Suc (Suc (next_handle s)))\<rparr>)"
    using assms(2) f
    by (simp add: startMainRenderPass_def endRenderPass_def create_def call_def Let_def a'_def)
  have p1: "render_pass_protocol (trace (endRenderPass s)) = Some None"
    using pr by (simp add: e render_pass_protocol_def pass_step_def)
  have p2: "render_pass_protocol (trace (snd (startMainRenderPass s))) =
             Some (Some (Suc (Suc (next_handle s))))"
    using pr by (simp add: st render_pass_protocol_def pass_step_def)
  show ?thesis
    using f(1,2) e st pr p1 p2 by (intro exI [of _ sc] exI [of _ r] exI [of _ "a' # as"]) simp
qed

theorem startMainRenderPass_switches_pass_witness:
  "reachable drawing_engine \<and> currentRenderPass drawing_engine = Some 11 \<and>
   fst (startMainRenderPass drawing_engine) = Inr () \<and>
   currentRenderPass (snd (startMainRenderPass drawing_engine)) = Some 14 \<and>
   take 2 (drop (length (trace drawing_engine)) (trace (snd (startMainRenderPass drawing_engine)))) =
     [RenderPass_endPass 11, GetCurrentTexture 1 12] \<and>
   render_pass_protocol (trace (snd (startMainRenderPass drawing_engine))) = Some (Some 14)"
proof -
  have c: "currentRenderPass drawing_engine = Some 11"
    by (simp add: drawing_engine_def)
  from startMainRenderPass_switches_pass [OF drawing_engine_reachable c]
  show ?thesis
    using drawing_engine_reachable c by (auto simp: drawing_engine_def)
qed

text \<open>
  C5, as amended. When the read \<^verbatim>\<open>this.pipelines[name]\<close> finds nothing (the name is not cached
  and is not one inherited from \<^verbatim>\<open>Object.prototype\<close>) and the descriptor lacks the vertex stage
  or the fragment stage, \<^verbatim>\<open>getRenderPipeline\<close> returns null, leaves the engine (so also the
  cache) unchanged and raises no error; a draw call with a bundle or render pass to draw
  into then binds no pipeline, and still records its draw command on that target.
\<close>

theorem incomplete_descriptor_binds_no_pipeline:
  assumes "get_property (pipelines s) name = None"
    and "vertexStage d = None \<or> fragmentStage d = None"
  shows "getRenderPipeline name d s = (Inr None, s) \<and>
         (\<forall>t. renderPassTarget s = Some t \<longrightarrow>
            drawArraysType name d start count inst s =
              (Inr (), call (Draw t count (case inst of None \<Rightarrow> 1 | Some n \<Rightarrow> n) start 0) s) \<and>
            drawElementsType name d start count inst s =
              (Inr (), call (DrawIndexed t count (case inst of None \<Rightarrow> 1 | Some n \<Rightarrow> n)
                               start 0 0) s))"
proof -
  have g: "getRenderPipeline name d s = (Inr None, s)"
    using assms by (auto simp: getRenderPipeline_def split: option.splits)
  then have "setRenderPipeline name d s = (Inr (), s)"
    by (simp add: setRenderPipeline_def and_then_def)
  with g show ?thesis
    by (simp add: drawArraysType_def drawElementsType_def and_then_def)
qed

theorem incomplete_descriptor_binds_no_pipeline_witness:
  "get_property (pipelines drawing_engine) ''basic'' = None \<and>
   (vertexStage vertex_only_request = None \<or> fragmentStage vertex_only_request = None) \<and>
   renderPassTarget drawing_engine = Some 11 \<and>
   getRenderPipeline ''basic'' vertex_only_request drawing_engine = (Inr None, drawing_engine) \<and>
   drawArraysType ''basic'' vertex_only_request 0 3 None drawing_engine =
     (Inr (), call (Draw 11 3 1 0 0) drawing_engine)"
  using incomplete_descriptor_binds_no_pipeline
    [of drawing_engine "''basic''" vertex_only_request 0 3 None]
  by (simp add: drawing_engine_def vertex_only_request_def renderPassTarget_def
      get_property_def Object_prototype_def)

text \<open>
  The claim as stated says the draw call is skipped. With the main render pass open and a
  descriptor that has no fragment stage, \<^verbatim>\<open>drawArraysType\<close> records the draw.
\<close>

theorem incomplete_descriptor_counterexample:
  "get_property (pipelines drawing_engine) ''basic'' = None \<and>
   fragmentStage vertex_only_request = None \<and>
   fst (drawArraysType ''basic'' vertex_only_request 0 3 None drawing_engine) = Inr () \<and>
   trace (snd (drawArraysType ''basic'' vertex_only_request 0 3 None drawing_engine)) =
     trace drawing_engine @ [Draw 11 3 1 0 0]"
  by (simp add: drawArraysType_def setRenderPipeline_def getRenderPipeline_def and_then_def
      renderPassTarget_def call_def vertex_only_request_def drawing_engine_def
      get_property_def Object_prototype_def)




text \<open>
  C7, as amended. On a reachable engine with a device, \<^verbatim>\<open>startRecordBundle\<close> creates a bundle
  encoder for the fixed colour format \<^verbatim>\<open>bgra8unorm\<close>, the depth-stencil format
  \<^verbatim>\<open>depth24plus-stencil8\<close> and the sample count fixed at construction (4 with antialiasing,
  else 1), and makes it the current bundle encoder. While a bundle encoder \<open>b\<close> is current,
  open render pass or not, the draw calls, \<^verbatim>\<open>setRenderBindGroups\<close> and \<^verbatim>\<open>bindVertexInputs\<close>
  return without error and make every pipeline, draw, bind-group and vertex-input call on
  \<open>b\<close>.
\<close>

theorem bundle_recording:
  "(reachable s \<and> device s \<noteq> None \<longrightarrow>
      startRecordBundle s =
        (Inr (),
         s\<lparr>next_handle := Suc (next_handle s),
           trace := trace s @
             [CreateRenderBundleEncoder (next_handle s)
                \<lparr>colorFormats = [TextureFormat_BGRA8Unorm],
                 depthStencilFormat = TextureFormat_Depth24PlusStencil8,
                 bundle_sampleCount =
                   (if antialiasing (options s) then defaultSampleCount else 1)\<rparr>],
           bundleEncoder := Some (next_handle s)\<rparr>)) \<and>
   (reachable s \<and> bundleEncoder s = Some b \<longrightarrow>
      renderPassTarget s = Some b \<and>
      fst (drawArraysType name d start count inst s) = Inr () \<and>
      (\<exists>pre. trace (snd (drawArraysType name d start count inst s)) =
               trace s @ pre @ [Draw b count (case inst of None \<Rightarrow> 1 | Some n \<Rightarrow> n) start 0] \<and>
             (\<forall>e\<in>set pre. receiver e \<in> {None, Some b})) \<and>
      fst (drawElementsType name d start count inst s) = Inr () \<and>
      (\<exists>pre. trace (snd (drawElementsType name d start count inst s)) =
               trace s @ pre @
                 [DrawIndexed b count (case inst of None \<Rightarrow> 1 | Some n \<Rightarrow> n) start 0 0] \<and>
             (\<forall>e\<in>set pre. receiver e \<in> {None, Some b})) \<and>
      setRenderBindGroups gs s =
        (Inr (), s\<lparr>trace := trace s @
                   map (\<lambda>(j, g). SetBindGroup b j g) (zip [0..<length gs] gs)\<rparr>) \<and>
      fst (bindVertexInputs vi s) = Inr () \<and>
      (\<exists>evs. trace (snd (bindVertexInputs vi s)) = trace s @ evs \<and>
             (\<forall>e\<in>set evs. receiver e = Some b)))"
proof (intro conjI impI)
  assume a: "reachable s \<and> device s \<noteq> None"
  then have "mainPassSampleCount s = (if antialiasing (options s) then defaultSampleCount else 1)"
    using reachable_ok [of s] by (simp add: engine_ok_def)
  then show "startRecordBundle s =
        (Inr (),
         s\<lparr>next_handle := Suc (next_handle s),
           trace := trace s @
             [CreateRenderBundleEncoder (next_handle s)
                \<lparr>colorFormats = [TextureFormat_BGRA8Unorm],
                 depthStencilFormat = TextureFormat_Depth24PlusStencil8,
                 bundle_sampleCount =
                   (if antialiasing (options s) then defaultSampleCount else 1)\<rparr>],
           bundleEncoder := Some (next_handle s)\<rparr>)"
    using a by (auto simp: startRecordBundle_def create_def)
next
  assume a: "reachable s \<and> bundleEncoder s = Some b"
  then have dev: "device s \<noteq> None"
    using reachable_ok [of s] by (simp add: engine_ok_def)
  show t: "renderPassTarget s = Some b"
    using a by (simp add: renderPassTarget_def)
  note dr = draw_effect [OF t dev, of name d start count inst]
  show "fst (drawArraysType name d start count inst s) = Inr ()"
    using dr by blast
  show "\<exists>pre. trace (snd (drawArraysType name d start count inst s)) =
               trace s @ pre @ [Draw b count (case inst of None \<Rightarrow> 1 | Some n \<Rightarrow> n) start 0] \<and>
             (\<forall>e\<in>set pre. receiver e \<in> {None, Some b})"
    using dr by blast
  show "fst (drawElementsType name d start count inst s) = Inr ()"
    using dr by blast
  show "\<exists>pre. trace (snd (drawElementsType name d start count inst s)) =
               trace s @ pre @
                 [DrawIndexed b count (case inst of None \<Rightarrow> 1 | Some n \<Rightarrow> n) start 0 0] \<and>
             (\<forall>e\<in>set pre. receiver e \<in> {None, Some b})"
    using dr by blast
  show "setRenderBindGroups gs s =
        (Inr (), s\<lparr>trace := trace s @
                   map (\<lambda>(j, g). SetBindGroup b j g) (zip [0..<length gs] gs)\<rparr>)"
    using setBindGroups_effect [of b 0 gs s] t by (simp add: setRenderBindGroups_def)
  obtain s1 evs0 where i: "(case indexBuffer vi of
              None \<Rightarrow> (Inr (), s)
            | Some ib \<Rightarrow>
                (case renderPassTarget s of
                   None \<Rightarrow> (Inl TypeError, s)
                 | Some t \<Rightarrow> (Inr (), call (SetIndexBuffer t ib (indexOffset vi)) s))) = (Inr (), s1)"
      "trace s1 = trace s @ evs0" "\<forall>e\<in>set evs0. receiver e = Some b"
    using t by (cases "indexBuffer vi") (auto simp: call_def receiver_def)
  from setVertexBuffers_effect [of b "vertexStartSlot vi" "vertexOffsets vi" 0 "vertexBuffers vi" s1]
  obtain evs where v: "setVertexBuffers (Some b) (vertexStartSlot vi) (vertexOffsets vi) 0
        (vertexBuffers vi) s1 = (Inr (), s1\<lparr>trace := trace s1 @ evs\<rparr>)"
      "\<forall>e\<in>set evs. receiver e = Some b"
    by blast
  have bv: "bindVertexInputs vi s = (Inr (), s1\<lparr>trace := trace s1 @ evs\<rparr>)"
    unfolding bindVertexInputs_def Let_def i(1) by (simp add: and_then_def v(1) t)
  show "fst (bindVertexInputs vi s) = Inr ()"
    using bv by simp
  show "\<exists>evs. trace (snd (bindVertexInputs vi s)) = trace s @ evs \<and>
             (\<forall>e\<in>set evs. receiver e = Some b)"
    using bv i(2,3) v(2) by (intro exI [of _ "evs0 @ evs"]) auto
qed

theorem bundle_recording_witness:
  "reachable drawing_engine \<and> device drawing_engine \<noteq> None \<and>
   fst (startRecordBundle drawing_engine) = Inr () \<and>
   reachable recording_engine \<and> bundleEncoder recording_engine = Some 12 \<and>
   currentRenderPass recording_engine = Some 11 \<and>
   renderPassTarget recording_engine = Some 12 \<and>
   trace (snd (drawArraysType ''basic'' vertex_only_request 0 3 None recording_engine)) =
     trace recording_engine @ [Draw 12 3 1 0 0] \<and>
   trace (snd (setRenderBindGroups [20, 21] recording_engine)) =
     trace recording_engine @ [SetBindGroup 12 0 20, SetBindGroup 12 1 21] \<and>
   trace (snd (bindVertexInputs some_vertex_inputs recording_engine)) =
     trace recording_engine @
       [SetIndexBuffer 12 30 0, SetVertexBuffer 12 0 31 (Some 0), SetVertexBuffer 12 2 32 None]"
proof -
  have r: "reachable recording_engine"
    unfolding recording_engine_def by (rule reachable_step) (rule drawing_engine_reachable)
  have b: "bundleEncoder recording_engine = Some 12"
    by (rule recording_engine_fields)
  note w = bundle_recording [of drawing_engine 0 "''basic''" vertex_only_request 0 3 None "[]"
      some_vertex_inputs]
    bundle_recording [of recording_engine 12 "''basic''" vertex_only_request 0 3 None "[20, 21]"
      some_vertex_inputs]
  have 1: "trace (snd (drawArraysType ''basic'' vertex_only_request 0 3 None recording_engine)) =
     trace recording_engine @ [Draw 12 3 1 0 0]"
    by (simp add: drawArraysType_def setRenderPipeline_def getRenderPipeline_def and_then_def
        renderPassTarget_def call_def vertex_only_request_def recording_engine_fields
        get_property_def Object_prototype_def)
  have 2: "trace (snd (bindVertexInputs some_vertex_inputs recording_engine)) =
     trace recording_engine @
       [SetIndexBuffer 12 30 0, SetVertexBuffer 12 0 31 (Some 0), SetVertexBuffer 12 2 32 None]"
    by (simp add: bindVertexInputs_def and_then_def renderPassTarget_def call_def
        some_vertex_inputs_def recording_engine_fields Let_def)
  from w r b drawing_engine_reachable 1 2 show ?thesis
    by (simp add: recording_engine_fields upt_rec [of 0] upt_rec [of 1] drawing_engine_def)
qed

text \<open>
  The claim as stated takes the colour format from the configuration. With the swap-chain
  format configured as \<^verbatim>\<open>rgba8unorm\<close> the bundle encoder is still created for \<^verbatim>\<open>bgra8unorm\<close>.
\<close>

theorem bundle_recording_counterexample:
  "swapChainFormat (options drawing_engine) = Some ''rgba8unorm'' \<and>
   trace (snd (startRecordBundle drawing_engine)) =
     trace drawing_engine @
       [CreateRenderBundleEncoder 12
          \<lparr>colorFormats = [''bgra8unorm''],
           depthStencilFormat = TextureFormat_Depth24PlusStencil8,
           bundle_sampleCount = 1\<rparr>] \<and>
   [''bgra8unorm''] \<noteq> [''rgba8unorm'']"
  by (simp add: startRecordBundle_def create_def drawing_engine_def plain_options_def
      TextureFormat_BGRA8Unorm_def)

text \<open>
  C8, as amended. With a bundle encoder \<open>b\<close> current, \<^verbatim>\<open>stopRecordBundle\<close> finishes it, returns
  the new bundle and clears the bundle encoder, so that draws go to the render pass again.
  With none current it throws a \<open>TypeError\<close>, at once and with the engine unchanged.
\<close>

theorem stopRecordBundle_outcome:
  "(bundleEncoder s = Some b \<longrightarrow>
      stopRecordBundle s =
        (Inr (next_handle s),
         s\<lparr>next_handle := Suc (next_handle s),
           trace := trace s @ [Bundle_finish b (next_handle s)],
           bundleEncoder := None\<rparr>) \<and>
      renderPassTarget (snd (stopRecordBundle s)) = currentRenderPass s) \<and>
   (bundleEncoder s = None \<longrightarrow> stopRecordBundle s = (Inl TypeError, s))"
  by (simp add: stopRecordBundle_def create_def renderPassTarget_def)

theorem stopRecordBundle_outcome_witness:
  "bundleEncoder (step Op_startRecordBundle drawing_engine) = Some 12 \<and>
   fst (stopRecordBundle (step Op_startRecordBundle drawing_engine)) = Inr 13 \<and>
   renderPassTarget (snd (stopRecordBundle (step Op_startRecordBundle drawing_engine))) = Some 11 \<and>
   bundleEncoder drawing_engine = None \<and>
   stopRecordBundle drawing_engine = (Inl TypeError, drawing_engine)"
  using stopRecordBundle_outcome [of "step Op_startRecordBundle drawing_engine" 12]
    stopRecordBundle_outcome [of drawing_engine 0]
  by (simp add: startRecordBundle_def create_def drawing_engine_def renderPassTarget_def)

text \<open>
  The claim as stated names \<open>InvalidStateError\<close>. With no bundle encoder the error thrown is
  the \<open>TypeError\<close> of reading \<^verbatim>\<open>finish\<close> from \<^verbatim>\<open>null\<close>.
\<close>

theorem stopRecordBundle_counterexample:
  "bundleEncoder drawing_engine = None \<and>
   fst (stopRecordBundle drawing_engine) = Inl TypeError \<and>
   fst (stopRecordBundle drawing_engine) \<noteq> Inl InvalidStateError"
  by (simp add: stopRecordBundle_def drawing_engine_def)

text \<open>
  C9. With no compute pass open, \<^verbatim>\<open>dispatch(n)\<close> does nothing for any \<open>n\<close>: it returns
  normally and leaves the engine, with the recorded device calls, the pipelines and the
  passes, exactly as it was.
\<close>

theorem dispatch_without_compute_pass:
  "currentComputePass s = None \<Longrightarrow> dispatch n s = (Inr (), s)"
  by (simp add: dispatch_def)

theorem dispatch_without_compute_pass_witness:
  "currentComputePass drawing_engine = None \<and>
   dispatch 64 drawing_engine = (Inr (), drawing_engine)"
  using dispatch_without_compute_pass [of drawing_engine 64]
  by (simp add: drawing_engine_def)

text \<open>
  C10. \<^verbatim>\<open>setSize\<close> does the same whatever its two arguments are. On an engine with a device
  and antialiasing it returns, having destroyed the main colour texture if there was one,
  created a new one of the canvas width and height at the time of the call (depth 1) and a
  view of it, destroyed the depth texture if there was one and created a new one of the same
  size and a view of it; the two new textures and the extent are stored in the engine.
  Without antialiasing, with a swap chain, it returns, takes the current swap-chain texture
  as colour attachment, keeps \<open>mainTexture\<close> and recreates the depth texture in the same way.
  Whenever it returns, every texture created during the call has the canvas size.
\<close>

theorem setSize_uses_canvas_size:
  "setSize w1 h1 s = setSize w2 h2 s \<and>
   (device s \<noteq> None \<and> antialiasing (options s) \<longrightarrow>
      fst (setSize w1 h1 s) = Inr () \<and>
      trace (snd (setSize w1 h1 s)) =
        trace s @ old_texture (mainTexture s) @
          [CreateTexture (next_handle s)
             \<lparr>tex_size = \<lparr>extent_width = canvas_width s, extent_height = canvas_height s,
                           extent_depth = 1\<rparr>,
              arrayLayerCount = 1, mipLevelCount = 1,
              tex_sampleCount = mainPassSampleCount s,
              dimension = TextureDimension_E2d,
              tex_format = TextureFormat_BGRA8Unorm,
              tex_usage = {TextureUsage_OutputAttachment}\<rparr>,
           Texture_createView (next_handle s) (Suc (next_handle s))] @
          old_texture (depthTexture s) @
          [CreateTexture (Suc (Suc (next_handle s)))
             \<lparr>tex_size = \<lparr>extent_width = canvas_width s, extent_height = canvas_height s,
                           extent_depth = 1\<rparr>,
              arrayLayerCount = 1, mipLevelCount = 1,
              tex_sampleCount = mainPassSampleCount s,
              dimension = TextureDimension_E2d,
              tex_format = TextureFormat_Depth24PlusStencil8,
              tex_usage = {TextureUsage_OutputAttachment}\<rparr>,
           Texture_createView (Suc (Suc (next_handle s))) (Suc (Suc (Suc (next_handle s))))] \<and>
      mainTexture (snd (setSize w1 h1 s)) = Some (next_handle s) \<and>
      depthTexture (snd (setSize w1 h1 s)) = Some (Suc (Suc (next_handle s))) \<and>
      mainTextureExtends (snd (setSize w1 h1 s)) =
        Some \<lparr>extent_width = canvas_width s, extent_height = canvas_height s,
              extent_depth = 1\<rparr>) \<and>
   (device s \<noteq> None \<and> \<not> antialiasing (options s) \<and> swapChain s = Some sc \<longrightarrow>
      fst (setSize w1 h1 s) = Inr () \<and>
      trace (snd (setSize w1 h1 s)) =
        trace s @
          [GetCurrentTexture sc (next_handle s),
           Texture_createView (next_handle s) (Suc (next_handle s))] @
          old_texture (depthTexture s) @
          [CreateTexture (Suc (Suc (next_handle s)))
             \<lparr>tex_size = \<lparr>extent_width = canvas_width s, extent_height = canvas_height s,
                           extent_depth = 1\<rparr>,
              arrayLayerCount = 1, mipLevelCount = 1,
              tex_sampleCount = mainPassSampleCount s,
              dimension = TextureDimension_E2d,
              tex_format = TextureFormat_Depth24PlusStencil8,
              tex_usage = {TextureUsage_OutputAttachment}\<rparr>,
           Texture_createView (Suc (Suc (next_handle s))) (Suc (Suc (Suc (next_handle s))))] \<and>
      mainTexture (snd (setSize w1 h1 s)) = mainTexture s \<and>
      depthTexture (snd (setSize w1 h1 s)) = Some (Suc (Suc (next_handle s))) \<and>
      mainTextureExtends (snd (setSize w1 h1 s)) =
        Some \<lparr>extent_width = canvas_width s, extent_height = canvas_height s,
              extent_depth = 1\<rparr>) \<and>
   (fst (setSize w1 h1 s) = Inr () \<longrightarrow>
      (let s' = snd (setSize w1 h1 s);
           ext = \<lparr>extent_width = canvas_width s, extent_height = canvas_height s,
                   extent_depth = 1\<rparr>;
           new = drop (length (trace s)) (trace s')
       in mainTextureExtends s' = Some ext \<and>
          (\<forall>h d. CreateTexture h d \<in> set new \<longrightarrow> tex_size d = ext) \<and>
          (\<exists>h d. depthTexture s' = Some h \<and> CreateTexture h d \<in> set new) \<and>
          (antialiasing (options s) \<longrightarrow>
             (\<exists>h d. mainTexture s' = Some h \<and> CreateTexture h d \<in> set new))))"
proof -
  have 1: "setSize w1 h1 s = setSize w2 h2 s"
    by (simp add: setSize_def)
  have 2: "device s \<noteq> None \<and> antialiasing (options s) \<longrightarrow>
      fst (setSize w1 h1 s) = Inr () \<and>
      trace (snd (setSize w1 h1 s)) =
        trace s @ old_texture (mainTexture s) @
          [CreateTexture (next_handle s)
             \<lparr>tex_size = \<lparr>extent_width = canvas_width s, extent_height = canvas_height s,
                           extent_depth = 1\<rparr>,
              arrayLayerCount = 1, mipLevelCount = 1,
              tex_sampleCount = mainPassSampleCount s,
              dimension = TextureDimension_E2d,
              tex_format = TextureFormat_BGRA8Unorm,
              tex_usage = {TextureUsage_OutputAttachment}\<rparr>,
           Texture_createView (next_handle s) (Suc (next_handle s))] @
          old_texture (depthTexture s) @
          [CreateTexture (Suc (Suc (next_handle s)))
             \<lparr>tex_size = \<lparr>extent_width = canvas_width s, extent_height = canvas_height s,
                           extent_depth = 1\<rparr>,
              arrayLayerCount = 1, mipLevelCount = 1,
              tex_sampleCount = mainPassSampleCount s,
              dimension = TextureDimension_E2d,
              tex_format = TextureFormat_Depth24PlusStencil8,
              tex_usage = {TextureUsage_OutputAttachment}\<rparr>,
           Texture_createView (Suc (Suc (next_handle s))) (Suc (Suc (Suc (next_handle s))))] \<and>
      mainTexture (snd (setSize w1 h1 s)) = Some (next_handle s) \<and>
      depthTexture (snd (setSize w1 h1 s)) = Some (Suc (Suc (next_handle s))) \<and>
      mainTextureExtends (snd (setSize w1 h1 s)) =
        Some \<lparr>extent_width = canvas_width s, extent_height = canvas_height s,
              extent_depth = 1\<rparr>"
    unfolding setSize_def
    by (intro impI conjI; elim conjE)
       (rule initMainAttachments_antialiased; assumption)+
  have 3: "device s \<noteq> None \<and> \<not> antialiasing (options s) \<and> swapChain s = Some sc \<longrightarrow>
      fst (setSize w1 h1 s) = Inr () \<and>
      trace (snd (setSize w1 h1 s)) =
        trace s @
          [GetCurrentTexture sc (next_handle s),
           Texture_createView (next_handle s) (Suc (next_handle s))] @
          old_texture (depthTexture s) @
          [CreateTexture (Suc (Suc (next_handle s)))
             \<lparr>tex_size = \<lparr>extent_width = canvas_width s, extent_height = canvas_height s,
                           extent_depth = 1\<rparr>,
              arrayLayerCount = 1, mipLevelCount = 1,
              tex_sampleCount = mainPassSampleCount s,
              dimension = TextureDimension_E2d,
              tex_format = TextureFormat_Depth24PlusStencil8,
              tex_usage = {TextureUsage_OutputAttachment}\<rparr>,
           Texture_createView (Suc (Suc (next_handle s))) (Suc (Suc (Suc (next_handle s))))] \<and>
      mainTexture (snd (setSize w1 h1 s)) = mainTexture s \<and>
      depthTexture (snd (setSize w1 h1 s)) = Some (Suc (Suc (next_handle s))) \<and>
      mainTextureExtends (snd (setSize w1 h1 s)) =
        Some \<lparr>extent_width = canvas_width s, extent_height = canvas_height s,
              extent_depth = 1\<rparr>"
    unfolding setSize_def
    by (intro impI conjI; elim conjE)
       (rule initMainAttachments_swapChain; assumption)+
  have 4: "fst (setSize w1 h1 s) = Inr () \<longrightarrow>
      (let s' = snd (setSize w1 h1 s);
           ext = \<lparr>extent_width = canvas_width s, extent_height = canvas_height s,
                   extent_depth = 1\<rparr>;
           new = drop (length (trace s)) (trace s')
       in mainTextureExtends s' = Some ext \<and>
          (\<forall>h d. CreateTexture h d \<in> set new \<longrightarrow> tex_size d = ext) \<and>
          (\<exists>h d. depthTexture s' = Some h \<and> CreateTexture h d \<in> set new) \<and>
          (antialiasing (options s) \<longrightarrow>
             (\<exists>h d. mainTexture s' = Some h \<and> CreateTexture h d \<in> set new)))"
    by (rule impI) (rule setSize_textures_at_canvas_size)
  from 1 2 3 4 show ?thesis
    by (intro conjI)
qed

theorem setSize_uses_canvas_size_witness:
  "device antialiased_engine \<noteq> None \<and> antialiasing (options antialiased_engine) \<and>
   canvas_width antialiased_engine = 400 \<and> canvas_height antialiased_engine = 300 \<and>
   setSize 1 1 antialiased_engine = setSize 800 600 antialiased_engine \<and>
   fst (setSize 1 1 antialiased_engine) = Inr () \<and>
   trace (snd (setSize 1 1 antialiased_engine)) =
     trace antialiased_engine @
       [Texture_destroy 2,
        CreateTexture 6
          \<lparr>tex_size = \<lparr>extent_width = 400, extent_height = 300, extent_depth = 1\<rparr>,
           arrayLayerCount = 1, mipLevelCount = 1, tex_sampleCount = 4,
           dimension = TextureDimension_E2d, tex_format = TextureFormat_BGRA8Unorm,
           tex_usage = {TextureUsage_OutputAttachment}\<rparr>,
        Texture_createView 6 7,
        Texture_destroy 4,
        CreateTexture 8
          \<lparr>tex_size = \<lparr>extent_width = 400, extent_height = 300, extent_depth = 1\<rparr>,
           arrayLayerCount = 1, mipLevelCount = 1, tex_sampleCount = 4,
           dimension = TextureDimension_E2d, tex_format = TextureFormat_Depth24PlusStencil8,
           tex_usage = {TextureUsage_OutputAttachment}\<rparr>,
        Texture_createView 8 9] \<and>
   mainTexture (snd (setSize 1 1 antialiased_engine)) = Some 6 \<and>
   depthTexture (snd (setSize 1 1 antialiased_engine)) = Some 8 \<and>
   device drawing_engine \<noteq> None \<and> \<not> antialiasing (options drawing_engine) \<and>
   swapChain drawing_engine = Some 1 \<and>
   fst (setSize 1 1 drawing_engine) = Inr () \<and>
   depthTexture (snd (setSize 1 1 drawing_engine)) = Some 14 \<and>
   mainTextureExtends (snd (setSize 1 1 drawing_engine)) =
     Some \<lparr>extent_width = 800, extent_height = 600, extent_depth = 1\<rparr>"
proof -
  have a: "device antialiased_engine \<noteq> None" "antialiasing (options antialiased_engine)"
      "canvas_width antialiased_engine = 400" "canvas_height antialiased_engine = 300"
      "mainTexture antialiased_engine = Some 2" "depthTexture antialiased_engine = Some 4"
      "next_handle antialiased_engine = 6" "mainPassSampleCount antialiased_engine = 4"
    by (simp_all add: antialiased_engine_def antialiased_options_def)
  have d: "device drawing_engine \<noteq> None" "\<not> antialiasing (options drawing_engine)"
      "swapChain drawing_engine = Some 1" "canvas_width drawing_engine = 800"
      "canvas_height drawing_engine = 600" "next_handle drawing_engine = 12"
    by (simp_all add: drawing_engine_def plain_options_def)
  from a d setSize_uses_canvas_size [of 1 1 antialiased_engine 800 600 0]
    setSize_uses_canvas_size [of 1 1 drawing_engine 800 600 1]
  show ?thesis
    by (simp add: old_texture_def setSize_def)
qed

end
